theory Spec2Isabelle
  imports Complex_Main "HOL-Library.Word"
begin

section \<open>Data model of \<^verbatim>\<open>RTC::PipeTransport\<close>\<close>

text \<open>
  The embedding follows \<^verbatim>\<open>worker/src/RTC/PipeTransport.cpp\<close>. Buffers
  \<^verbatim>\<open>(const uint8_t* data, size_t len)\<close> are byte lists whose length is
  \<^verbatim>\<open>len\<close>; \<^verbatim>\<open>std::string\<close> is \<open>string\<close>; a pointer member that may
  be \<^verbatim>\<open>nullptr\<close> is an \<open>option\<close>.
\<close>

type_synonym bytes = "8 word list"

text \<open>The values of \<^verbatim>\<open>nlohmann::json\<close> that the file inspects.\<close>

datatype json =
    JNull
  | JBool bool
  | JInt int
  | JUInt nat
  | JFloat real
  | JString string
  | JArray "json list"
  | JObject "(string \<times> json) list"

text \<open>
  \<^verbatim>\<open>j.find(key)\<close>: the member of an object, \<^verbatim>\<open>end()\<close> (here \<open>None\<close>)
  when the key is missing or \<open>j\<close> is not an object.
\<close>

fun find_json :: "json \<Rightarrow> string \<Rightarrow> json option" where
  "find_json (JObject kvs) k = map_of kvs k"
| "find_json _ k = None"

fun is_object :: "json \<Rightarrow> bool" where
  "is_object (JObject _) = True"
| "is_object _ = False"

fun is_string :: "json \<Rightarrow> bool" where
  "is_string (JString _) = True"
| "is_string _ = False"

fun is_boolean :: "json \<Rightarrow> bool" where
  "is_boolean (JBool _) = True"
| "is_boolean _ = False"

text \<open>
  \<^verbatim>\<open>get<std::string>()\<close> and \<^verbatim>\<open>get<bool>()\<close>; the file calls them only
  behind \<^verbatim>\<open>is_string()\<close> and \<^verbatim>\<open>is_boolean()\<close>, a value of another type
  is \<open>None\<close>.
\<close>

fun get_string :: "json \<Rightarrow> string option" where
  "get_string (JString x) = Some x"
| "get_string _ = None"

fun get_bool :: "json \<Rightarrow> bool option" where
  "get_bool (JBool b) = Some b"
| "get_bool _ = None"

text \<open>
  \<^verbatim>\<open>MS_THROW_ERROR\<close> throws a \<^verbatim>\<open>MediaSoupError\<close>, \<^verbatim>\<open>MS_THROW_TYPE_ERROR\<close>
  a \<^verbatim>\<open>MediaSoupTypeError\<close> (a subclass: \<^verbatim>\<open>catch (const MediaSoupError&)\<close>
  catches both). \<^verbatim>\<open>MS_ABORT\<close> ends the process and is caught by nothing.
\<close>

datatype MediaSoupError = MediaSoupError string | MediaSoupTypeError string

fun is_type_error :: "MediaSoupError \<Rightarrow> bool" where
  "is_type_error (MediaSoupTypeError _) = True"
| "is_type_error (MediaSoupError _) = False"

fun what :: "MediaSoupError \<Rightarrow> string" where
  "what (MediaSoupError m) = m"
| "what (MediaSoupTypeError m) = m"

text \<open>
  How a member function that may throw ends: it returns a value, it throws (the
  object is left in the given state), or the process aborts.
\<close>

datatype ('a, 'st) result = Return 'a 'st | Throw MediaSoupError 'st | Abort string

datatype family = AF_INET | AF_INET6 | AF_UNSPEC

record sockaddr =
  sa_family :: family
  sa_addr :: string
  sa_port :: "16 word"

record UdpSocket =
  localIp :: string
  localPort :: "16 word"

text \<open>
  \<^verbatim>\<open>RTC::TransportTuple\<close>: the local socket and one remote address. The C++
  tuple keeps a pointer to \<^verbatim>\<open>remoteAddrStorage\<close>, which is written only when
  the one tuple of a transport is created, so the model stores the address.
\<close>

record TransportTuple =
  udpSocket :: UdpSocket
  udpRemoteAddr :: sockaddr
  localAnnouncedIp :: string

record ListenIp =
  ip :: string
  announcedIp :: string

datatype SrtpType = INBOUND | OUTBOUND

datatype Profile = AES_CM_128_HMAC_SHA1_80 | AES_CM_128_HMAC_SHA1_32

text \<open>The accessors of \<^verbatim>\<open>RTC::RtpPacket\<close> and of the RTCP packets the file calls.\<close>

record RtpPacket =
  rtpData :: bytes
  ssrc :: "32 word"
  payloadType :: "8 word"
  sequenceNumber :: "16 word"

record RtcpPacket =
  rtcpData :: bytes

record CompoundPacket =
  compoundData :: bytes

text \<open>
  \<^verbatim>\<open>Channel::Request\<close>: the method and the JSON body. Only
  \<^verbatim>\<open>TRANSPORT_CONNECT\<close> is handled in this file.
\<close>

datatype MethodId = TRANSPORT_CONNECT | OTHER_METHOD nat

record Request =
  methodId :: MethodId
  data :: json

text \<open>
  Every call the transport makes on a collaborator that has an effect outside the
  object is recorded, in order: the base transport (\<^verbatim>\<open>DataReceived\<close>,
  \<^verbatim>\<open>DataSent\<close>, \<^verbatim>\<open>Connected\<close>, \<^verbatim>\<open>ReceiveRtpPacket\<close>,
  \<^verbatim>\<open>ReceiveRtcpPacket\<close>, \<^verbatim>\<open>ReceiveSctpData\<close>), the tuple's
  \<^verbatim>\<open>Send\<close>, the invocation of a send callback, the logging macros, and the
  calls on the SRTP sessions and the parsers. A send callback is named by a number.
\<close>

datatype call =
    EvDataReceived nat
  | EvDataSent nat
  | EvConnected
  | EvReceiveRtpPacket RtpPacket
  | EvReceiveRtcpPacket RtcpPacket
  | EvReceiveSctpData bytes
  | EvTupleSend bytes "nat option"
  | EvCallback nat bool
  | EvLog string "nat list"
  | EvEncryptRtp bytes
  | EvEncryptRtcp bytes
  | EvDecryptSrtp bytes
  | EvDecryptSrtcp bytes
  | EvRtpParse bytes
  | EvRtcpParse bytes

text \<open>
  The members of \<^verbatim>\<open>PipeTransport\<close>. \<open>'s\<close> is the type of an SRTP session
  (\<^verbatim>\<open>RTC::SrtpSession\<close>), which has a state of its own. \<open>socket\<close> is the
  member \<^verbatim>\<open>udpSocket\<close> (a name the tuple's field has here). \<open>calls\<close> is
  not a member: it is the history of the collaborator calls made so far.
\<close>

record 's PipeTransport =
  listenIp :: ListenIp
  rtx :: bool
  srtpKey :: string
  socket :: UdpSocket
  tuple :: "TransportTuple option"
  remoteAddrStorage :: "sockaddr option"
  srtpSendSession :: "'s option"
  srtpRecvSession :: "'s option"
  calls :: "call list"

text \<open>
  The collaborators whose code is outside this file, as parameters:
  \<^verbatim>\<open>Utils::IP\<close>, \<^verbatim>\<open>Utils::Json\<close>, \<^verbatim>\<open>Utils::Crypto\<close>, libuv's address
  parsing, the constructors of \<^verbatim>\<open>RTC::Transport\<close>, \<^verbatim>\<open>RTC::UdpSocket\<close> and
  \<^verbatim>\<open>RTC::SrtpSession\<close>, the session's transforms, the packet classifiers and the
  parsers.
  \<^item> \<open>NormalizeIp\<close> returns the normalized address (\<open>Inr\<close>) or throws a
    \<^verbatim>\<open>MediaSoupTypeError\<close> with the given message (\<open>Inl\<close>); the
    specification has a failed validation of an ip as a ValidationError.
  \<^item> \<open>GetFamily\<close> is \<^verbatim>\<open>Utils::IP::GetFamily\<close>; \<open>AF_UNSPEC\<close> stands for
    every value but \<^verbatim>\<open>AF_INET\<close> and \<^verbatim>\<open>AF_INET6\<close>.
  \<^item> \<open>GetRandomString n\<close> is the string the random generator gives when asked
    for \<open>n\<close> characters.
  \<^item> \<open>Transport_new\<close> is the constructor of the base class: the error it
    throws, if any. \<open>UdpSocket_new\<close> returns the bound socket or throws.
  \<^item> \<open>uv_inet_pton f ip\<close> is the error code of libuv's parse of \<open>ip\<close> as an address
    of family \<open>f\<close>, 0 when it succeeds.
  \<^item> \<open>SrtpSession_new\<close> returns the session or throws.
  \<^item> \<open>EncryptRtp\<close> and \<open>EncryptRtcp\<close> return the buffer to send (\<open>None\<close> when
    they return \<^verbatim>\<open>false\<close>) and the session's next state.
  \<^item> \<open>DecryptSrtp\<close> and \<open>DecryptSrtcp\<close> work in place: they return their
    \<^verbatim>\<open>bool\<close>, the buffer as it stands after the call, and the session's next
    state.
\<close>

record 's collaborators =
  NormalizeIp :: "string \<Rightarrow> string + string"
  GetFamily :: "string \<Rightarrow> family"
  IsPositiveInteger :: "json \<Rightarrow> bool"
  GetRandomString :: "nat \<Rightarrow> string"
  uv_inet_pton :: "family \<Rightarrow> string \<Rightarrow> int"
  uv_strerror :: "int \<Rightarrow> string"
  Transport_new :: "json \<Rightarrow> MediaSoupError option"
  UdpSocket_new :: "string \<Rightarrow> MediaSoupError + UdpSocket"
  SrtpSession_new :: "SrtpType \<Rightarrow> Profile \<Rightarrow> string \<Rightarrow> nat \<Rightarrow> MediaSoupError + 's"
  EncryptRtp :: "'s \<Rightarrow> bytes \<Rightarrow> bytes option \<times> 's"
  EncryptRtcp :: "'s \<Rightarrow> bytes \<Rightarrow> bytes option \<times> 's"
  DecryptSrtp :: "'s \<Rightarrow> bytes \<Rightarrow> bool \<times> bytes \<times> 's"
  DecryptSrtcp :: "'s \<Rightarrow> bytes \<Rightarrow> bool \<times> bytes \<times> 's"
  IsRtcp :: "bytes \<Rightarrow> bool"
  IsRtp :: "bytes \<Rightarrow> bool"
  IsSctp :: "bytes \<Rightarrow> bool"
  RtpPacket_Parse :: "bytes \<Rightarrow> RtpPacket option"
  RtcpPacket_Parse :: "bytes \<Rightarrow> RtcpPacket option"
  Transport_HandleRequest ::
    "Request \<Rightarrow> 's PipeTransport \<Rightarrow> (json, 's PipeTransport) result"

section \<open>Static data and small members\<close>

definition SrtpProfile :: Profile where
  "SrtpProfile = AES_CM_128_HMAC_SHA1_80"

definition SrtpMasterLength :: nat where
  "SrtpMasterLength = 30"

definition HasSrtp :: "'s PipeTransport \<Rightarrow> bool" where
  "HasSrtp t = (srtpKey t \<noteq> [])"

definition IsConnected :: "'s PipeTransport \<Rightarrow> bool" where
  "IsConnected t = (tuple t \<noteq> None)"

definition record_call :: "call \<Rightarrow> 's PipeTransport \<Rightarrow> 's PipeTransport" where
  "record_call c t = t\<lparr>calls := calls t @ [c]\<rparr>"

section \<open>The constructor\<close>

text \<open>
  Lines 46--54: \<^verbatim>\<open>listenIp.announcedIp\<close>, the empty string when the key is
  missing.
\<close>

definition ctor_announcedIp :: "json \<Rightarrow> MediaSoupError + string" where
  "ctor_announcedIp jsonListenIp =
     (case find_json jsonListenIp ''announcedIp'' of
        None \<Rightarrow> Inr []
      | Some jsonAnnouncedIp \<Rightarrow>
          (case get_string jsonAnnouncedIp of
             None \<Rightarrow> Inl (MediaSoupTypeError ''wrong listenIp.announcedIp (not an string'')
           | Some a \<Rightarrow> Inr a))"

text \<open>
  Lines 56--59: \<^verbatim>\<open>this->rtx\<close> is assigned only when \<^verbatim>\<open>enableRtx\<close> is
  present and a boolean. Modelled from the spec: the member's initial value, which
  the class declaration (not in this file) gives, is \<open>False\<close> (``optional bool,
  default false'').
\<close>

definition ctor_rtx :: "json \<Rightarrow> bool" where
  "ctor_rtx d =
     (case find_json d ''enableRtx'' of
        None \<Rightarrow> False
      | Some jsonEnableRtx \<Rightarrow>
          (if is_boolean jsonEnableRtx
           then (case get_bool jsonEnableRtx of Some b \<Rightarrow> b | None \<Rightarrow> False)
           else False))"

text \<open>
  Lines 61--72: the local key is generated only when \<^verbatim>\<open>enableSrtp\<close> is
  present, a boolean and true; otherwise \<^verbatim>\<open>this->srtpKey\<close> stays the empty
  \<^verbatim>\<open>std::string\<close>.
\<close>

definition ctor_srtpKey :: "'s collaborators \<Rightarrow> json \<Rightarrow> string" where
  "ctor_srtpKey env d =
     (case find_json d ''enableSrtp'' of
        None \<Rightarrow> []
      | Some jsonEnableSrtp \<Rightarrow>
          (if is_boolean jsonEnableSrtp \<and> get_bool jsonEnableSrtp = Some True
           then GetRandomString env SrtpMasterLength
           else []))"

text \<open>
  The constructor, lines 22--88. The base class is constructed first and may
  throw. A \<^verbatim>\<open>MediaSoupError\<close> of the socket's constructor is rethrown after
  the (null) socket pointer is deleted. Modelled from the spec: the pointer
  members \<^verbatim>\<open>tuple\<close>, \<^verbatim>\<open>srtpSendSession\<close> and \<^verbatim>\<open>srtpRecvSession\<close> start
  as \<^verbatim>\<open>nullptr\<close> (the class declaration is not in this file; the remote
  binding and the sessions are absent until connect).
\<close>

definition PipeTransport_new ::
    "'s collaborators \<Rightarrow> json \<Rightarrow> MediaSoupError + 's PipeTransport" where
  "PipeTransport_new env d =
     (case Transport_new env d of
        Some e \<Rightarrow> Inl e
      | None \<Rightarrow>
     (case find_json d ''listenIp'' of
        None \<Rightarrow> Inl (MediaSoupTypeError ''missing listenIp'')
      | Some jsonListenIp \<Rightarrow>
     if \<not> is_object jsonListenIp
     then Inl (MediaSoupTypeError ''wrong listenIp (not an object)'')
     else
     (case find_json jsonListenIp ''ip'' of
        None \<Rightarrow> Inl (MediaSoupTypeError ''missing listenIp.ip'')
      | Some jsonIp \<Rightarrow>
     (case get_string jsonIp of
        None \<Rightarrow> Inl (MediaSoupTypeError ''wrong listenIp.ip (not an string)'')
      | Some ip0 \<Rightarrow>
     (case NormalizeIp env ip0 of
        Inl m \<Rightarrow> Inl (MediaSoupTypeError m)
      | Inr nip \<Rightarrow>
     (case ctor_announcedIp jsonListenIp of
        Inl e \<Rightarrow> Inl e
      | Inr aip \<Rightarrow>
     (case UdpSocket_new env nip of
        Inl e \<Rightarrow> Inl e
      | Inr sock \<Rightarrow>
          Inr \<lparr> listenIp = \<lparr> ip = nip, announcedIp = aip \<rparr>,
                rtx = ctor_rtx d,
                srtpKey = ctor_srtpKey env d,
                socket = sock,
                tuple = None,
                remoteAddrStorage = None,
                srtpSendSession = None,
                srtpRecvSession = None,
                calls = [] \<rparr>)))))))"

section \<open>The tuple\<close>

text \<open>
  \<^verbatim>\<open>new RTC::TransportTuple(udpSocket, addr)\<close> and
  \<^verbatim>\<open>SetLocalAnnouncedIp\<close>.
\<close>

definition TransportTuple_new :: "UdpSocket \<Rightarrow> sockaddr \<Rightarrow> TransportTuple" where
  "TransportTuple_new sock addr =
     \<lparr> udpSocket = sock, udpRemoteAddr = addr, localAnnouncedIp = [] \<rparr>"

definition SetLocalAnnouncedIp :: "string \<Rightarrow> TransportTuple \<Rightarrow> TransportTuple" where
  "SetLocalAnnouncedIp a tup = tup\<lparr>localAnnouncedIp := a\<rparr>"

text \<open>
  Modelled from the spec: \<^verbatim>\<open>TransportTuple::FillJson\<close> is not in this file. The
  description of a binding is \<^verbatim>\<open>{ localIp, localPort, protocol: "udp", remoteIp,
  remotePort }\<close>, the announced address standing for the local one when there is one.
\<close>

definition TransportTuple_FillJson :: "TransportTuple \<Rightarrow> json" where
  "TransportTuple_FillJson tup =
     JObject
       [(''localIp'', JString (if localAnnouncedIp tup = [] then localIp (udpSocket tup)
                               else localAnnouncedIp tup)),
        (''localPort'', JUInt (unat (localPort (udpSocket tup)))),
        (''protocol'', JString ''udp''),
        (''remoteIp'', JString (sa_addr (udpRemoteAddr tup))),
        (''remotePort'', JUInt (unat (sa_port (udpRemoteAddr tup))))]"

text \<open>
  Modelled from the spec: \<^verbatim>\<open>TransportTuple::Compare\<close> is not in this file.
  ``Comparison is exact equality of (ip, port, transport-protocol = "udp")''; every
  tuple of this transport is a UDP one.
\<close>

definition TransportTuple_Compare :: "TransportTuple \<Rightarrow> TransportTuple \<Rightarrow> bool" where
  "TransportTuple_Compare a b =
     (sa_addr (udpRemoteAddr a) = sa_addr (udpRemoteAddr b) \<and>
      sa_port (udpRemoteAddr a) = sa_port (udpRemoteAddr b))"

text \<open>
  libuv's \<^verbatim>\<open>uv_ip4_addr(ip, port, addr)\<close> and \<^verbatim>\<open>uv_ip6_addr\<close>: a nonzero
  error code when the text does not parse (\<open>Inl\<close>), else the address with its
  family and the port that was passed.
\<close>

definition uv_ip4_addr :: "'s collaborators \<Rightarrow> string \<Rightarrow> 16 word \<Rightarrow> int + sockaddr" where
  "uv_ip4_addr env a p =
     (let err = uv_inet_pton env AF_INET a in
      if err \<noteq> 0 then Inl err
      else Inr \<lparr> sa_family = AF_INET, sa_addr = a, sa_port = p \<rparr>)"

definition uv_ip6_addr :: "'s collaborators \<Rightarrow> string \<Rightarrow> 16 word \<Rightarrow> int + sockaddr" where
  "uv_ip6_addr env a p =
     (let err = uv_inet_pton env AF_INET6 a in
      if err \<noteq> 0 then Inl err
      else Inr \<lparr> sa_family = AF_INET6, sa_addr = a, sa_port = p \<rparr>)"

section \<open>\<^verbatim>\<open>HandleRequest\<close>: connect\<close>

text \<open>\<^verbatim>\<open>it == end() || !P(*it)\<close> for the iterator a \<^verbatim>\<open>find\<close> returned.\<close>

definition absent_or_not :: "(json \<Rightarrow> bool) \<Rightarrow> json option \<Rightarrow> bool" where
  "absent_or_not P it = (case it of None \<Rightarrow> True | Some v \<Rightarrow> \<not> P v)"

text \<open>
  Lines 191--199: the \<^verbatim>\<open>ip\<close> of the request, normalized.
\<close>

definition connect_ip :: "'s collaborators \<Rightarrow> json \<Rightarrow> MediaSoupError + string" where
  "connect_ip env d =
     (let jsonIpIt = find_json d ''ip'' in
      if absent_or_not is_string jsonIpIt
      then Inl (MediaSoupTypeError ''missing ip'')
      else (case Option.bind jsonIpIt get_string of
              None \<Rightarrow> Inl (MediaSoupTypeError ''missing ip'')
            | Some ip0 \<Rightarrow>
                (case NormalizeIp env ip0 of
                   Inl m \<Rightarrow> Inl (MediaSoupTypeError m)
                 | Inr nip \<Rightarrow> Inr nip)))"

text \<open>
  Lines 188 and 201--211: \<^verbatim>\<open>uint16_t port{ 0u }\<close> is declared, the request's
  \<^verbatim>\<open>port\<close> is looked up and checked, and nothing is assigned to the variable:
  it is still 0 when the address is resolved.
\<close>

definition connect_port :: "'s collaborators \<Rightarrow> json \<Rightarrow> MediaSoupError + 16 word" where
  "connect_port env d =
     (let port = 0;
          jsonPortIt = find_json d ''port'' in
      if absent_or_not (IsPositiveInteger env) jsonPortIt
      then Inl (MediaSoupTypeError ''missing port'')
      else Inr port)"

text \<open>
  Lines 213--270: the \<^verbatim>\<open>srtpKey\<close> of the request against the local
  protection state, then the two sessions. \<^verbatim>\<open>memcpy\<close> copies
  \<^verbatim>\<open>SrtpMasterLength\<close> bytes of each key (the remote key has that length
  by the check before; the local key is the one the constructor asked
  \<^verbatim>\<open>GetRandomString\<close> for, of that length). The session pointers are members:
  when the receiving session's constructor throws, the sending session is still
  held by the transport. The \<open>None\<close> case of \<open>get_string\<close> is excluded by the
  check before it.
\<close>

definition connect_srtp ::
    "'s collaborators \<Rightarrow> 's PipeTransport \<Rightarrow> json \<Rightarrow> (unit, 's PipeTransport) result" where
  "connect_srtp env t d =
     (let jsonSrtpKeyIt = find_json d ''srtpKey'' in
      if \<not> HasSrtp t \<and> jsonSrtpKeyIt \<noteq> None
      then Throw (MediaSoupTypeError ''invalid srtpKey (SRTP not enabled locally)'') t
      else if HasSrtp t \<and> absent_or_not is_string jsonSrtpKeyIt
      then Throw (MediaSoupTypeError ''missing srtpKey (SRTP enabled locally)'') t
      else if HasSrtp t
      then
        (case Option.bind jsonSrtpKeyIt get_string of
           None \<Rightarrow> Abort ''srtpKey is not a string''
         | Some remoteKey \<Rightarrow>
             if length remoteKey \<noteq> SrtpMasterLength
             then Throw (MediaSoupTypeError ''invalid srtpKey length'') t
             else
               (let srtpLocalKey = take SrtpMasterLength (srtpKey t);
                    srtpRemoteKey = take SrtpMasterLength remoteKey in
                case SrtpSession_new env OUTBOUND SrtpProfile srtpLocalKey SrtpMasterLength of
                  Inl e \<Rightarrow>
                    Throw (MediaSoupError (''error creating SRTP sending session: '' @ what e)) t
                | Inr sendSession \<Rightarrow>
                    (let t1 = t\<lparr>srtpSendSession := Some sendSession\<rparr> in
                     case SrtpSession_new env INBOUND SrtpProfile srtpRemoteKey SrtpMasterLength of
                       Inl e \<Rightarrow>
                         Throw (MediaSoupError
                                  (''error creating SRTP receiving session: '' @ what e)) t1
                     | Inr recvSession \<Rightarrow>
                         Return () (t1\<lparr>srtpRecvSession := Some recvSession\<rparr>))))
      else Return () t)"

text \<open>
  Lines 272--306: the remote address. A failure of \<^verbatim>\<open>uv_ip4_addr\<close> or
  \<^verbatim>\<open>uv_ip6_addr\<close> is \<^verbatim>\<open>MS_ABORT\<close>; the \<^verbatim>\<open>default\<close> case of the switch
  on the family is \<^verbatim>\<open>MS_THROW_ERROR\<close>.
\<close>

definition connect_resolve ::
    "'s collaborators \<Rightarrow> 's PipeTransport \<Rightarrow> string \<Rightarrow> 16 word \<Rightarrow>
       (sockaddr, 's PipeTransport) result" where
  "connect_resolve env t a port =
     (case GetFamily env a of
        AF_INET \<Rightarrow>
          (case uv_ip4_addr env a port of
             Inl err \<Rightarrow> Abort (''uv_ip4_addr() failed: '' @ uv_strerror env err)
           | Inr addr \<Rightarrow> Return addr (t\<lparr>remoteAddrStorage := Some addr\<rparr>))
      | AF_INET6 \<Rightarrow>
          (case uv_ip6_addr env a port of
             Inl err \<Rightarrow> Abort (''uv_ip6_addr() failed: '' @ uv_strerror env err)
           | Inr addr \<Rightarrow> Return addr (t\<lparr>remoteAddrStorage := Some addr\<rparr>))
      | AF_UNSPEC \<Rightarrow>
          Throw (MediaSoupError (''invalid IP '' @ [CHR 0x27] @ a @ [CHR 0x27])) t)"

text \<open>Lines 308--313: the tuple, with the announced address when there is one.\<close>

definition connect_tuple :: "'s PipeTransport \<Rightarrow> sockaddr \<Rightarrow> 's PipeTransport" where
  "connect_tuple t addr =
     (let tup = TransportTuple_new (socket t) addr in
      t\<lparr>tuple := Some (if announcedIp (listenIp t) \<noteq> []
                        then SetLocalAnnouncedIp (announcedIp (listenIp t)) tup
                        else tup)\<rparr>)"

text \<open>The body of the \<^verbatim>\<open>try\<close> block, lines 186--314.\<close>

definition connect_try ::
    "'s collaborators \<Rightarrow> 's PipeTransport \<Rightarrow> json \<Rightarrow> (unit, 's PipeTransport) result" where
  "connect_try env t d =
     (case connect_ip env d of
        Inl e \<Rightarrow> Throw e t
      | Inr a \<Rightarrow>
     (case connect_port env d of
        Inl e \<Rightarrow> Throw e t
      | Inr port \<Rightarrow>
     (case connect_srtp env t d of
        Throw e t1 \<Rightarrow> Throw e t1
      | Abort m \<Rightarrow> Abort m
      | Return _ t1 \<Rightarrow>
     (case connect_resolve env t1 a port of
        Throw e t2 \<Rightarrow> Throw e t2
      | Abort m \<Rightarrow> Abort m
      | Return addr t2 \<Rightarrow> Return () (connect_tuple t2 addr)))))"

text \<open>
  The handler of lines 315--327: both sessions and the tuple are deleted and set to
  \<^verbatim>\<open>nullptr\<close> before the error is rethrown.
\<close>

definition connect_rollback :: "'s PipeTransport \<Rightarrow> 's PipeTransport" where
  "connect_rollback t = t\<lparr>srtpSendSession := None, srtpRecvSession := None, tuple := None\<rparr>"

text \<open>
  The \<^verbatim>\<open>TRANSPORT_CONNECT\<close> case, lines 179--341. The check against a second
  call is outside the \<^verbatim>\<open>try\<close> block. After the block the description of the
  tuple is the accepted response and the base class is told
  (\<^verbatim>\<open>RTC::Transport::Connected()\<close>). The block has installed the tuple, so
  the \<open>None\<close> case, a null \<^verbatim>\<open>this->tuple\<close>, does not occur.
\<close>

definition connect ::
    "'s collaborators \<Rightarrow> 's PipeTransport \<Rightarrow> json \<Rightarrow> (json, 's PipeTransport) result" where
  "connect env t d =
     (if tuple t \<noteq> None
      then Throw (MediaSoupError ''connect() already called'') t
      else
        (case connect_try env t d of
           Throw e t1 \<Rightarrow> Throw e (connect_rollback t1)
         | Abort m \<Rightarrow> Abort m
         | Return _ t1 \<Rightarrow>
             (case tuple t1 of
                None \<Rightarrow> Abort ''null tuple''
              | Some tup \<Rightarrow>
                  Return (JObject [(''tuple'', TransportTuple_FillJson tup)])
                         (record_call EvConnected t1))))"

definition HandleRequest ::
    "'s collaborators \<Rightarrow> 's PipeTransport \<Rightarrow> Request \<Rightarrow> (json, 's PipeTransport) result" where
  "HandleRequest env t request =
     (case methodId request of
        TRANSPORT_CONNECT \<Rightarrow> connect env t (data request)
      | OTHER_METHOD n \<Rightarrow> Transport_HandleRequest env request t)"

section \<open>The outbound pipeline\<close>

text \<open>
  The functions below return \<open>None\<close> where the C++ dereferences a null session
  pointer (\<^verbatim>\<open>HasSrtp()\<close> holds and the session was never created).
\<close>

text \<open>\<^verbatim>\<open>if (cb) { (*cb)(false); delete cb; }\<close>\<close>

definition fail_callback :: "nat option \<Rightarrow> 's PipeTransport \<Rightarrow> 's PipeTransport" where
  "fail_callback cb t = (case cb of None \<Rightarrow> t | Some c \<Rightarrow> record_call (EvCallback c False) t)"

text \<open>
  \<^verbatim>\<open>this->tuple->Send(data, len, cb); RTC::Transport::DataSent(len);\<close>
\<close>

definition send_and_count :: "bytes \<Rightarrow> nat option \<Rightarrow> 's PipeTransport \<Rightarrow> 's PipeTransport" where
  "send_and_count d cb t =
     record_call (EvDataSent (length d)) (record_call (EvTupleSend d cb) t)"

text \<open>Lines 361--396.\<close>

definition SendRtpPacket ::
    "'s collaborators \<Rightarrow> 's PipeTransport \<Rightarrow> RtpPacket \<Rightarrow> nat option \<Rightarrow>
       's PipeTransport option" where
  "SendRtpPacket env t packet cb =
     (if \<not> IsConnected t then Some (fail_callback cb t)
      else
        (let d = rtpData packet in
         if HasSrtp t
         then
           (case srtpSendSession t of
              None \<Rightarrow> None
            | Some ses \<Rightarrow>
                (case EncryptRtp env ses d of
                   (r, ses') \<Rightarrow>
                     (let t1 = record_call (EvEncryptRtp d) (t\<lparr>srtpSendSession := Some ses'\<rparr>) in
                      case r of
                        None \<Rightarrow> Some (fail_callback cb t1)
                      | Some d' \<Rightarrow> Some (send_and_count d' cb t1))))
         else Some (send_and_count d cb t)))"

text \<open>
  Lines 398--434: \<^verbatim>\<open>SendRtcpPacket\<close> and \<^verbatim>\<open>SendRtcpCompoundPacket\<close> have
  the same body, on the buffer of their packet.
\<close>

definition send_rtcp_buffer ::
    "'s collaborators \<Rightarrow> 's PipeTransport \<Rightarrow> bytes \<Rightarrow> 's PipeTransport option" where
  "send_rtcp_buffer env t d =
     (if \<not> IsConnected t then Some t
      else if HasSrtp t
      then
        (case srtpSendSession t of
           None \<Rightarrow> None
         | Some ses \<Rightarrow>
             (case EncryptRtcp env ses d of
                (r, ses') \<Rightarrow>
                  (let t1 = record_call (EvEncryptRtcp d) (t\<lparr>srtpSendSession := Some ses'\<rparr>) in
                   case r of
                     None \<Rightarrow> Some t1
                   | Some d' \<Rightarrow> Some (send_and_count d' None t1))))
      else Some (send_and_count d None t))"

definition SendRtcpPacket ::
    "'s collaborators \<Rightarrow> 's PipeTransport \<Rightarrow> RtcpPacket \<Rightarrow> 's PipeTransport option" where
  "SendRtcpPacket env t packet = send_rtcp_buffer env t (rtcpData packet)"

definition SendRtcpCompoundPacket ::
    "'s collaborators \<Rightarrow> 's PipeTransport \<Rightarrow> CompoundPacket \<Rightarrow> 's PipeTransport option" where
  "SendRtcpCompoundPacket env t packet = send_rtcp_buffer env t (compoundData packet)"

text \<open>Lines 436--447.\<close>

definition SendSctpData ::
    "'s collaborators \<Rightarrow> 's PipeTransport \<Rightarrow> bytes \<Rightarrow> 's PipeTransport option" where
  "SendSctpData env t d =
     (if \<not> IsConnected t then Some t
      else Some (send_and_count d None t))"

section \<open>The inbound pipeline\<close>

text \<open>Lines 495--513: the diagnostic after a failed \<^verbatim>\<open>DecryptSrtp\<close>.\<close>

definition decrypt_failed ::
    "'s collaborators \<Rightarrow> bytes \<Rightarrow> 's PipeTransport \<Rightarrow> 's PipeTransport" where
  "decrypt_failed env d t =
     (let t1 = record_call (EvRtpParse d) t in
      case RtpPacket_Parse env d of
        None \<Rightarrow> record_call (EvLog ''DecryptSrtp() failed due to an invalid RTP packet'' []) t1
      | Some packet \<Rightarrow>
          record_call
            (EvLog ''DecryptSrtp() failed [ssrc:%u, payloadType:%u, seq:%u]''
               [unat (ssrc packet), unat (payloadType packet), unat (sequenceNumber packet)])
            t1)"

text \<open>Lines 516--526.\<close>

definition parse_rtp_and_forward ::
    "'s collaborators \<Rightarrow> bytes \<Rightarrow> 's PipeTransport \<Rightarrow> 's PipeTransport" where
  "parse_rtp_and_forward env d t =
     (let t1 = record_call (EvRtpParse d) t in
      case RtpPacket_Parse env d of
        None \<Rightarrow> record_call (EvLog ''received data is not a valid RTP packet'' []) t1
      | Some packet \<Rightarrow> record_call (EvReceiveRtpPacket packet) t1)"

text \<open>Lines 477--527.\<close>

definition OnRtpDataReceived ::
    "'s collaborators \<Rightarrow> 's PipeTransport \<Rightarrow> TransportTuple \<Rightarrow> bytes \<Rightarrow>
       's PipeTransport option" where
  "OnRtpDataReceived env t tup d =
     (case tuple t of
        None \<Rightarrow> Some t
      | Some own \<Rightarrow>
          if \<not> TransportTuple_Compare own tup
          then Some (record_call (EvLog ''ignoring RTP packet from unknown IP:port'' []) t)
          else if HasSrtp t
          then
            (case srtpRecvSession t of
               None \<Rightarrow> None
             | Some ses \<Rightarrow>
                 (case DecryptSrtp env ses d of
                    (ok, d', ses') \<Rightarrow>
                      (let t1 = record_call (EvDecryptSrtp d)
                                  (t\<lparr>srtpRecvSession := Some ses'\<rparr>) in
                       if \<not> ok then Some (decrypt_failed env d' t1)
                       else Some (parse_rtp_and_forward env d' t1))))
          else Some (parse_rtp_and_forward env d t))"

text \<open>Lines 549--559.\<close>

definition parse_rtcp_and_forward ::
    "'s collaborators \<Rightarrow> bytes \<Rightarrow> 's PipeTransport \<Rightarrow> 's PipeTransport" where
  "parse_rtcp_and_forward env d t =
     (let t1 = record_call (EvRtcpParse d) t in
      case RtcpPacket_Parse env d of
        None \<Rightarrow>
          record_call
            (EvLog ''received data is not a valid RTCP compound or single packet'' []) t1
      | Some packet \<Rightarrow> record_call (EvReceiveRtcpPacket packet) t1)"

text \<open>Lines 529--560.\<close>

definition OnRtcpDataReceived ::
    "'s collaborators \<Rightarrow> 's PipeTransport \<Rightarrow> TransportTuple \<Rightarrow> bytes \<Rightarrow>
       's PipeTransport option" where
  "OnRtcpDataReceived env t tup d =
     (case tuple t of
        None \<Rightarrow> Some t
      | Some own \<Rightarrow>
          if \<not> TransportTuple_Compare own tup
          then Some (record_call (EvLog ''ignoring RTCP packet from unknown IP:port'' []) t)
          else if HasSrtp t
          then
            (case srtpRecvSession t of
               None \<Rightarrow> None
             | Some ses \<Rightarrow>
                 (case DecryptSrtcp env ses d of
                    (ok, d', ses') \<Rightarrow>
                      (let t1 = record_call (EvDecryptSrtcp d)
                                  (t\<lparr>srtpRecvSession := Some ses'\<rparr>) in
                       if \<not> ok then Some t1
                       else Some (parse_rtcp_and_forward env d' t1))))
          else Some (parse_rtcp_and_forward env d t))"

text \<open>Lines 562--580.\<close>

definition OnSctpDataReceived ::
    "'s collaborators \<Rightarrow> 's PipeTransport \<Rightarrow> TransportTuple \<Rightarrow> bytes \<Rightarrow>
       's PipeTransport option" where
  "OnSctpDataReceived env t tup d =
     (case tuple t of
        None \<Rightarrow> Some t
      | Some own \<Rightarrow>
          if \<not> TransportTuple_Compare own tup
          then Some (record_call (EvLog ''ignoring SCTP packet from unknown IP:port'' []) t)
          else Some (record_call (EvReceiveSctpData d) t))"

text \<open>Lines 449--475.\<close>

definition OnPacketReceived ::
    "'s collaborators \<Rightarrow> 's PipeTransport \<Rightarrow> TransportTuple \<Rightarrow> bytes \<Rightarrow>
       's PipeTransport option" where
  "OnPacketReceived env t tup d =
     (let t1 = record_call (EvDataReceived (length d)) t in
      if IsRtcp env d then OnRtcpDataReceived env t1 tup d
      else if IsRtp env d then OnRtpDataReceived env t1 tup d
      else if IsSctp env d then OnSctpDataReceived env t1 tup d
      else Some (record_call (EvLog ''ignoring received packet of unknown type'' []) t1))"

text \<open>Lines 582--590.\<close>

definition OnUdpSocketPacketReceived ::
    "'s collaborators \<Rightarrow> 's PipeTransport \<Rightarrow> UdpSocket \<Rightarrow> bytes \<Rightarrow> sockaddr \<Rightarrow>
       's PipeTransport option" where
  "OnUdpSocketPacketReceived env t sock d remoteAddr =
     OnPacketReceived env t (TransportTuple_new sock remoteAddr) d"

section \<open>The counters of the base transport\<close>

text \<open>
  Modelled from the spec: \<^verbatim>\<open>RTC::Transport::DataReceived\<close> and
  \<^verbatim>\<open>DataSent\<close> are not in this file. They report bytes to the owning
  transport's cumulative counters, so the bytes-received counter is the sum of the
  lengths given to \<^verbatim>\<open>DataReceived\<close> and the bytes-sent counter the sum of
  those given to \<^verbatim>\<open>DataSent\<close>.
\<close>

fun received_amount :: "call \<Rightarrow> nat" where
  "received_amount (EvDataReceived n) = n"
| "received_amount _ = 0"

fun sent_amount :: "call \<Rightarrow> nat" where
  "sent_amount (EvDataSent n) = n"
| "sent_amount _ = 0"

definition bytesReceived :: "'s PipeTransport \<Rightarrow> nat" where
  "bytesReceived t = sum_list (map received_amount (calls t))"

definition bytesSent :: "'s PipeTransport \<Rightarrow> nat" where
  "bytesSent t = sum_list (map sent_amount (calls t))"

section \<open>A concrete set of collaborators\<close>

text \<open>
  The collaborators are parameters of the model. To evaluate it on inputs, the
  following instance is used: sessions are counters of the transforms they ran;
  only the loopback addresses are valid; encryption appends one tag byte and
  fails on the empty buffer; decryption removes the tag byte and fails when it is
  not there; a buffer is classified by its first byte.
\<close>

definition loopback_env :: "nat collaborators" where
  "loopback_env =
     \<lparr> NormalizeIp = (\<lambda>a. if a = ''127.0.0.1'' \<or> a = ''::1'' then Inr a
                           else Inl (''invalid ip'')),
       GetFamily = (\<lambda>a. if a = ''127.0.0.1'' then AF_INET
                         else if a = ''::1'' then AF_INET6 else AF_UNSPEC),
       IsPositiveInteger = (\<lambda>j. case j of JUInt n \<Rightarrow> True | JInt i \<Rightarrow> 0 \<le> i | _ \<Rightarrow> False),
       GetRandomString = (\<lambda>n. replicate n (CHR ''k'')),
       uv_inet_pton = (\<lambda>f a. if (f = AF_INET \<and> a = ''127.0.0.1'') \<or> (f = AF_INET6 \<and> a = ''::1'')
                              then 0 else - 22),
       uv_strerror = (\<lambda>e. ''invalid argument''),
       Transport_new = (\<lambda>d. None),
       UdpSocket_new = (\<lambda>a. Inr \<lparr> localIp = a, localPort = 40000 \<rparr>),
       SrtpSession_new = (\<lambda>ty pr key len.
          if length key = len then Inr 0 else Inl (MediaSoupError ''srtp_create() failed'')),
       EncryptRtp = (\<lambda>s d. (if d = [] then None else Some (d @ [255]), Suc s)),
       EncryptRtcp = (\<lambda>s d. (if d = [] then None else Some (d @ [255]), Suc s)),
       DecryptSrtp = (\<lambda>s d. (d \<noteq> [] \<and> last d = 255, (if d \<noteq> [] \<and> last d = 255 then butlast d else d), Suc s)),
       DecryptSrtcp = (\<lambda>s d. (d \<noteq> [] \<and> last d = 255, (if d \<noteq> [] \<and> last d = 255 then butlast d else d), Suc s)),
       IsRtcp = (\<lambda>d. case d of [] \<Rightarrow> False | b # _ \<Rightarrow> b = 129),
       IsRtp = (\<lambda>d. case d of [] \<Rightarrow> False | b # _ \<Rightarrow> b = 128),
       IsSctp = (\<lambda>d. case d of [] \<Rightarrow> False | b # _ \<Rightarrow> b = 19),
       RtpPacket_Parse = (\<lambda>d. if 2 \<le> length d
          then Some \<lparr> rtpData = d, ssrc = 7, payloadType = 96, sequenceNumber = 1 \<rparr> else None),
       RtcpPacket_Parse = (\<lambda>d. if 2 \<le> length d then Some \<lparr> rtcpData = d \<rparr> else None),
       Transport_HandleRequest = (\<lambda>r t. Throw (MediaSoupError ''unknown method'') t) \<rparr>"

text \<open>A transport without protection and one with it, as the constructor builds them.\<close>

definition plain_transport :: "nat PipeTransport" where
  "plain_transport =
     \<lparr> listenIp = \<lparr> ip = ''127.0.0.1'', announcedIp = [] \<rparr>,
       rtx = False,
       srtpKey = [],
       socket = \<lparr> localIp = ''127.0.0.1'', localPort = 40000 \<rparr>,
       tuple = None,
       remoteAddrStorage = None,
       srtpSendSession = None,
       srtpRecvSession = None,
       calls = [] \<rparr>"

definition srtp_transport :: "nat PipeTransport" where
  "srtp_transport = plain_transport\<lparr>srtpKey := replicate 30 (CHR ''k'')\<rparr>"

text \<open>The remote address \<open>127.0.0.1\<close> with a given port, and the tuple on it.\<close>

definition loopback_addr :: "16 word \<Rightarrow> sockaddr" where
  "loopback_addr p = \<lparr> sa_family = AF_INET, sa_addr = ''127.0.0.1'', sa_port = p \<rparr>"

definition loopback_tuple :: "16 word \<Rightarrow> TransportTuple" where
  "loopback_tuple p =
     \<lparr> udpSocket = \<lparr> localIp = ''127.0.0.1'', localPort = 40000 \<rparr>,
       udpRemoteAddr = loopback_addr p,
       localAnnouncedIp = [] \<rparr>"

text \<open>The connect request of the scenario: ip 127.0.0.1, port 5004, a 30-byte key.\<close>

definition connect_5004 :: json where
  "connect_5004 = JObject [(''ip'', JString ''127.0.0.1''), (''port'', JUInt 5004)]"

definition connect_5004_key :: "nat \<Rightarrow> json" where
  "connect_5004_key n =
     JObject [(''ip'', JString ''127.0.0.1''), (''port'', JUInt 5004),
              (''srtpKey'', JString (replicate n (CHR ''X'')))]"

definition connected_plain :: "nat PipeTransport" where
  "connected_plain =
     plain_transport\<lparr>tuple := Some (loopback_tuple 0),
                     remoteAddrStorage := Some (loopback_addr 0),
                     calls := [EvConnected]\<rparr>"

definition connected_srtp :: "nat PipeTransport" where
  "connected_srtp =
     srtp_transport\<lparr>tuple := Some (loopback_tuple 0),
                    remoteAddrStorage := Some (loopback_addr 0),
                    srtpSendSession := Some 0,
                    srtpRecvSession := Some 0,
                    calls := [EvConnected]\<rparr>"

section \<open>Notions of the specification\<close>

text \<open>
  The mismatch between the \<^verbatim>\<open>srtpKey\<close> of a connect request and the local
  protection state, in the words of the specification: protection is enabled
  locally and \<^verbatim>\<open>srtpKey\<close> is absent or not a string; or protection is
  disabled locally and \<^verbatim>\<open>srtpKey\<close> is present; or a supplied
  \<^verbatim>\<open>srtpKey\<close> is not exactly 30 bytes long.
\<close>

definition srtpKey_mismatch :: "'s PipeTransport \<Rightarrow> json \<Rightarrow> bool" where
  "srtpKey_mismatch t d =
     ((HasSrtp t \<and> (case find_json d ''srtpKey'' of
                       None \<Rightarrow> True
                     | Some v \<Rightarrow> \<not> is_string v)) \<or>
      (\<not> HasSrtp t \<and> find_json d ''srtpKey'' \<noteq> None) \<or>
      (case find_json d ''srtpKey'' of
         Some (JString key) \<Rightarrow> length key \<noteq> 30
       | _ \<Rightarrow> False))"

text \<open>
  The state of the session pair that the specification allows outside a connect
  call: both sessions are present on a connected transport with protection, and
  both are absent otherwise.
\<close>

definition sessions_consistent :: "'s PipeTransport \<Rightarrow> bool" where
  "sessions_consistent t =
     (if tuple t \<noteq> None \<and> HasSrtp t
      then srtpSendSession t \<noteq> None \<and> srtpRecvSession t \<noteq> None
      else srtpSendSession t = None \<and> srtpRecvSession t = None)"

text \<open>
  The transport runs on one thread: its life is a sequence of calls, each run to
  its end before the next. \<open>step\<close> is one call and \<open>run\<close> a sequence of
  them; \<open>None\<close> is the end of the process (an abort or a null dereference). A
  connect request that throws leaves the transport alive, in the state the
  handler left.
\<close>

datatype event =
    Connect json
  | SendRtp RtpPacket "nat option"
  | SendRtcp RtcpPacket
  | SendRtcpCompound CompoundPacket
  | SendSctp bytes
  | Datagram UdpSocket bytes sockaddr

definition step :: "'s collaborators \<Rightarrow> 's PipeTransport \<Rightarrow> event \<Rightarrow> 's PipeTransport option" where
  "step env t ev =
     (case ev of
        Connect d \<Rightarrow>
          (case HandleRequest env t \<lparr> methodId = TRANSPORT_CONNECT, data = d \<rparr> of
             Return r t' \<Rightarrow> Some t'
           | Throw e t' \<Rightarrow> Some t'
           | Abort m \<Rightarrow> None)
      | SendRtp packet cb \<Rightarrow> SendRtpPacket env t packet cb
      | SendRtcp packet \<Rightarrow> SendRtcpPacket env t packet
      | SendRtcpCompound packet \<Rightarrow> SendRtcpCompoundPacket env t packet
      | SendSctp d \<Rightarrow> SendSctpData env t d
      | Datagram sock d remoteAddr \<Rightarrow> OnUdpSocketPacketReceived env t sock d remoteAddr)"

fun run :: "'s collaborators \<Rightarrow> 's PipeTransport \<Rightarrow> event list \<Rightarrow> 's PipeTransport option" where
  "run env t [] = Some t"
| "run env t (ev # evs) =
     (case step env t ev of
        None \<Rightarrow> None
      | Some t' \<Rightarrow> run env t' evs)"

text \<open>
  Modelled from the spec: \<^verbatim>\<open>Utils::IP::NormalizeIp\<close> and
  \<^verbatim>\<open>Utils::IP::GetFamily\<close> are not in this file. The validation of an ip
  accepts it when it ``parses as IPv4 or IPv6'', and ``address-family dispatch
  (IPv4 vs IPv6) must succeed for syntactically valid addresses that passed
  earlier validation'': the family of every address that normalization returns
  is IPv4 or IPv6.
\<close>

definition family_contract :: "'s collaborators \<Rightarrow> bool" where
  "family_contract env =
     (\<forall>a nip. NormalizeIp env a = Inr nip \<longrightarrow>
        GetFamily env nip = AF_INET \<or> GetFamily env nip = AF_INET6)"

text \<open>Collaborators whose receiving session cannot be created.\<close>

definition no_inbound_env :: "nat collaborators" where
  "no_inbound_env =
     loopback_env\<lparr>SrtpSession_new := (\<lambda>ty pr key len.
        if ty = INBOUND then Inl (MediaSoupError ''srtp_create() failed'') else Inr 0)\<rparr>"

text \<open>The configuration of the scenario: listen on 127.0.0.1, protection enabled.\<close>

definition srtp_config :: json where
  "srtp_config =
     JObject [(''listenIp'', JObject [(''ip'', JString ''127.0.0.1'')]),
              (''enableSrtp'', JBool True)]"

text \<open>Collaborators whose libuv parse rejects every address.\<close>

definition unparsable_env :: "nat collaborators" where
  "unparsable_env = loopback_env\<lparr>uv_inet_pton := (\<lambda>f a. - 22)\<rparr>"

text \<open>A call that reports no bytes to either counter.\<close>

definition no_counter_call :: "call \<Rightarrow> bool" where
  "no_counter_call c = (received_amount c = 0 \<and> sent_amount c = 0)"

text \<open>An RTP packet with the given buffer.\<close>

definition rtp_packet :: "bytes \<Rightarrow> RtpPacket" where
  "rtp_packet d = \<lparr> rtpData = d, ssrc = 7, payloadType = 96, sequenceNumber = 1 \<rparr>"

text \<open>
  \<open>without_key k j\<close> is the object \<open>j\<close> without its member \<open>k\<close>.
\<close>

fun without_key :: "string \<Rightarrow> json \<Rightarrow> json" where
  "without_key k (JObject kvs) = JObject (filter (\<lambda>kv. fst kv \<noteq> k) kvs)"
| "without_key k j = j"

text \<open>A configuration whose \<^verbatim>\<open>enableSrtp\<close> and \<^verbatim>\<open>enableRtx\<close> are not booleans.\<close>

definition odd_config :: json where
  "odd_config =
     JObject [(''listenIp'', JObject [(''ip'', JString ''127.0.0.1'')]),
              (''enableRtx'', JUInt 1),
              (''enableSrtp'', JString ''true'')]"

section \<open>Connect: the returned tuple\<close>

lemmas connect_defs = connect_def connect_try_def connect_ip_def connect_port_def
  connect_srtp_def connect_resolve_def connect_tuple_def connect_rollback_def
  absent_or_not_def HasSrtp_def uv_ip4_addr_def uv_ip6_addr_def TransportTuple_new_def
  SetLocalAnnouncedIp_def TransportTuple_FillJson_def record_call_def SrtpMasterLength_def
  SrtpProfile_def

lemmas sample_defs = loopback_env_def plain_transport_def srtp_transport_def
  loopback_addr_def loopback_tuple_def connect_5004_def connect_5004_key_def
  connected_plain_def connected_srtp_def

lemma connect_try_Return_port:
  "connect_try env t d = Return u t' \<Longrightarrow>
     \<exists>tup. tuple t' = Some tup \<and> sa_port (udpRemoteAddr tup) = 0"
  by (auto simp: connect_try_def connect_port_def connect_resolve_def connect_tuple_def
        uv_ip4_addr_def uv_ip6_addr_def TransportTuple_new_def SetLocalAnnouncedIp_def Let_def
      split: sum.splits result.splits family.splits if_splits)

text \<open>
  Whatever \<^verbatim>\<open>port\<close> the request carries, the tuple of a successful connect
  has remote port 0, and so has the description returned to the caller.
\<close>

lemma connect_Return_port:
  "connect env t d = Return r t' \<Longrightarrow>
     \<exists>tup. tuple t' = Some tup \<and> sa_port (udpRemoteAddr tup) = 0 \<and>
           r = JObject [(''tuple'', TransportTuple_FillJson tup)] \<and>
           find_json (TransportTuple_FillJson tup) ''remotePort'' = Some (JUInt 0)"
  apply (simp add: connect_def split: if_splits result.splits option.splits)
  apply (drule connect_try_Return_port)
  apply (auto simp: record_call_def TransportTuple_FillJson_def)
  done

text \<open>
  C1 (the remote port of the returned tuple is the port of the request). On the
  code it is not: the connect request of the scenario, with \<^verbatim>\<open>ip\<close> 127.0.0.1 and
  \<^verbatim>\<open>port\<close> 5004, on a transport without protection, succeeds and returns a
  tuple whose \<^verbatim>\<open>remotePort\<close> is 0; the installed tuple and
  \<^verbatim>\<open>remoteAddrStorage\<close> hold port 0 as well.
\<close>

theorem connect_5004_remote_port_zero:
  "HandleRequest loopback_env plain_transport
       \<lparr> methodId = TRANSPORT_CONNECT, data = connect_5004 \<rparr> =
     Return
       (JObject [(''tuple'',
          JObject [(''localIp'', JString ''127.0.0.1''), (''localPort'', JUInt 40000),
                   (''protocol'', JString ''udp''), (''remoteIp'', JString ''127.0.0.1''),
                   (''remotePort'', JUInt 0)])])
       (plain_transport\<lparr>tuple := Some (loopback_tuple 0),
                         remoteAddrStorage := Some (loopback_addr 0),
                         calls := [EvConnected]\<rparr>)"
  by (simp add: HandleRequest_def connect_defs sample_defs)

section \<open>Connect: a second call\<close>

text \<open>
  C3: on a transport whose remote binding is present, every connect request fails
  with the error ``connect() already called'' (a \<^verbatim>\<open>MediaSoupError\<close>, the
  StateError of the specification), and the transport is left exactly as it was:
  tuple, sessions and every other member.
\<close>

theorem connect_twice_rejected:
  "tuple t \<noteq> None \<Longrightarrow>
     HandleRequest env t \<lparr> methodId = TRANSPORT_CONNECT, data = d \<rparr> =
       Throw (MediaSoupError ''connect() already called'') t"
  by (simp add: HandleRequest_def connect_def)

theorem connect_twice_rejected_witness:
  "tuple connected_srtp \<noteq> None \<and>
   HandleRequest loopback_env connected_srtp
       \<lparr> methodId = TRANSPORT_CONNECT, data = connect_5004_key 30 \<rparr> =
     Throw (MediaSoupError ''connect() already called'') connected_srtp"
proof -
  have present: "tuple connected_srtp \<noteq> None"
    by (simp add: connected_srtp_def)
  from connect_twice_rejected [OF present, of loopback_env "connect_5004_key 30"] present
  show ?thesis by simp
qed

section \<open>Connect: validation of the key\<close>

lemma connect_ip_Inr:
  "find_json d ''ip'' = Some (JString ip0) \<Longrightarrow> NormalizeIp env ip0 = Inr a \<Longrightarrow> connect_ip env d = Inr a"
  by (simp add: connect_ip_def absent_or_not_def)

lemma connect_port_Inr:
  "find_json d ''port'' = Some pj \<Longrightarrow> IsPositiveInteger env pj \<Longrightarrow> connect_port env d = Inr 0"
  by (simp add: connect_port_def absent_or_not_def)

lemma connect_ip_type_error: "connect_ip env d = Inl e \<Longrightarrow> is_type_error e"
  by (auto simp: connect_ip_def Let_def split: if_splits option.splits sum.splits)

lemma connect_port_type_error: "connect_port env d = Inl e \<Longrightarrow> is_type_error e"
  by (auto simp: connect_port_def Let_def split: if_splits)

lemma get_string_Some: "get_string v = Some x \<longleftrightarrow> v = JString x"
  by (cases v) auto

lemma get_string_None: "get_string v = None \<longleftrightarrow> \<not> is_string v"
  by (cases v) auto

lemma is_string_iff: "is_string v \<longleftrightarrow> (\<exists>x. v = JString x)"
  by (cases v) auto

lemma connect_srtp_type_error_iff:
  "(\<exists>m t'. connect_srtp env t d = Throw (MediaSoupTypeError m) t') \<longleftrightarrow> srtpKey_mismatch t d"
  by (cases "find_json d ''srtpKey''")
     (auto simp: connect_srtp_def srtpKey_mismatch_def absent_or_not_def Let_def SrtpMasterLength_def
        get_string_Some get_string_None is_string_iff
      split: option.splits sum.splits if_splits)

lemma connect_resolve_not_type_error:
  "connect_resolve env t a p = Throw e t' \<Longrightarrow> \<not> is_type_error e"
  by (auto simp: connect_resolve_def split: family.splits sum.splits)

lemma connect_srtp_Throw_cases:
  "connect_srtp env t d = Throw e t' \<Longrightarrow>
     (\<exists>m. e = MediaSoupTypeError m \<and> t' = t) \<or>
     (\<exists>m. e = MediaSoupError m)"
  by (auto simp: connect_srtp_def Let_def split: if_splits option.splits sum.splits)

lemma connect_type_error_iff:
  assumes "tuple t = None"
  shows "(\<exists>m t'. connect env t d = Throw (MediaSoupTypeError m) t') \<longleftrightarrow>
         (\<exists>e. connect_ip env d = Inl e) \<or> (\<exists>e. connect_port env d = Inl e) \<or>
         (\<exists>m t'. connect_srtp env t d = Throw (MediaSoupTypeError m) t')"
proof (cases "connect_ip env d")
  case (Inl e)
  then obtain m where "e = MediaSoupTypeError m"
    using connect_ip_type_error [OF Inl] by (cases e) auto
  with Inl assms show ?thesis by (simp add: connect_def connect_try_def)
next
  case ip: (Inr a)
  show ?thesis
  proof (cases "connect_port env d")
    case (Inl e)
    then obtain m where "e = MediaSoupTypeError m"
      using connect_port_type_error [OF Inl] by (cases e) auto
    with Inl ip assms show ?thesis by (simp add: connect_def connect_try_def)
  next
    case port: (Inr p)
    show ?thesis
    proof (cases "connect_srtp env t d")
      case (Return u t1)
      with ip port assms show ?thesis
        using connect_resolve_not_type_error [of env t1 a p]
        by (auto simp: connect_def connect_try_def split: result.splits option.splits)
    next
      case (Throw e t1)
      with ip port assms show ?thesis
        by (auto simp: connect_def connect_try_def)
    next
      case (Abort m)
      with ip port assms show ?thesis
        by (auto simp: connect_def connect_try_def)
    qed
  qed
qed

text \<open>
  C4: on an Unconnected transport, a connect request whose \<^verbatim>\<open>srtpKey\<close>
  mismatches the local protection state (enabled and the key absent or not a
  string; disabled and the key present; a supplied key not 30 bytes long) raises a
  \<^verbatim>\<open>MediaSoupTypeError\<close>, the ValidationError of the specification. When the
  \<^verbatim>\<open>ip\<close> and the \<^verbatim>\<open>port\<close> of the request pass their own validation,
  the request raises a \<^verbatim>\<open>MediaSoupTypeError\<close> exactly when there is such a
  mismatch.
\<close>

theorem connect_srtpKey_validation:
  assumes "tuple t = None"
  shows "(srtpKey_mismatch t d \<longrightarrow>
            (\<exists>m t'. HandleRequest env t \<lparr> methodId = TRANSPORT_CONNECT, data = d \<rparr> =
                      Throw (MediaSoupTypeError m) t')) \<and>
         (find_json d ''ip'' = Some (JString addr) \<and> NormalizeIp env addr = Inr nip \<and>
          find_json d ''port'' = Some pv \<and> IsPositiveInteger env pv \<longrightarrow>
            ((\<exists>m t'. HandleRequest env t \<lparr> methodId = TRANSPORT_CONNECT, data = d \<rparr> =
                      Throw (MediaSoupTypeError m) t') \<longleftrightarrow>
             srtpKey_mismatch t d))"
proof -
  have handle: "HandleRequest env t \<lparr> methodId = TRANSPORT_CONNECT, data = d \<rparr> = connect env t d"
    by (simp add: HandleRequest_def)
  have always: "srtpKey_mismatch t d \<Longrightarrow>
      \<exists>m t'. connect env t d = Throw (MediaSoupTypeError m) t'"
    using connect_type_error_iff [OF assms, of env d] connect_srtp_type_error_iff [of env t d]
    by blast
  have exact: "(\<exists>m t'. connect env t d = Throw (MediaSoupTypeError m) t') \<longleftrightarrow>
      srtpKey_mismatch t d"
    if "find_json d ''ip'' = Some (JString addr)" "NormalizeIp env addr = Inr nip"
       "find_json d ''port'' = Some pv" "IsPositiveInteger env pv"
  proof -
    have "connect_ip env d = Inr nip" using that by (simp add: connect_ip_Inr)
    moreover have "connect_port env d = Inr 0" using that by (simp add: connect_port_Inr)
    ultimately show ?thesis
      using connect_type_error_iff [OF assms, of env d] connect_srtp_type_error_iff [of env t d]
      by simp
  qed
  show ?thesis unfolding handle using always exact by blast
qed

theorem connect_srtpKey_validation_witness:
  "tuple srtp_transport = None \<and>
   srtpKey_mismatch srtp_transport (connect_5004_key 16) \<and>
   (\<exists>m t'. HandleRequest loopback_env srtp_transport
        \<lparr> methodId = TRANSPORT_CONNECT, data = connect_5004_key 16 \<rparr> =
      Throw (MediaSoupTypeError m) t') \<and>
   \<not> srtpKey_mismatch srtp_transport (connect_5004_key 30) \<and>
   \<not> (\<exists>m t'. HandleRequest loopback_env srtp_transport
        \<lparr> methodId = TRANSPORT_CONNECT, data = connect_5004_key 30 \<rparr> =
      Throw (MediaSoupTypeError m) t')"
proof -
  have unconnected: "tuple srtp_transport = None"
    by (simp add: sample_defs)
  have bad: "srtpKey_mismatch srtp_transport (connect_5004_key 16)"
    by (simp add: srtpKey_mismatch_def sample_defs HasSrtp_def)
  have good: "\<not> srtpKey_mismatch srtp_transport (connect_5004_key 30)"
    by (simp add: srtpKey_mismatch_def sample_defs HasSrtp_def)
  have valid: "find_json (connect_5004_key n) ''ip'' = Some (JString ''127.0.0.1'') \<and>
      NormalizeIp loopback_env ''127.0.0.1'' = Inr ''127.0.0.1'' \<and>
      find_json (connect_5004_key n) ''port'' = Some (JUInt 5004) \<and>
      IsPositiveInteger loopback_env (JUInt 5004)" for n
    by (simp add: sample_defs)
  from connect_srtpKey_validation [OF unconnected, where d = "connect_5004_key 16"
         and env = loopback_env]
       connect_srtpKey_validation [OF unconnected, where d = "connect_5004_key 30"
         and env = loopback_env and addr = "''127.0.0.1''" and nip = "''127.0.0.1''"
         and pv = "JUInt 5004"]
       unconnected bad good valid [of 30]
  show ?thesis by blast
qed

section \<open>Connect: what a failed or successful call leaves\<close>

lemma connect_srtp_Throw_state:
  "connect_srtp env t d = Throw e t1 \<Longrightarrow> connect_rollback t1 = connect_rollback t"
  by (auto simp: connect_srtp_def connect_rollback_def Let_def split: if_splits option.splits sum.splits)

lemma connect_srtp_Return_state:
  "connect_srtp env t d = Return u t1 \<Longrightarrow>
     (\<not> HasSrtp t \<and> t1 = t) \<or>
     (HasSrtp t \<and> (\<exists>a b. t1 = t\<lparr>srtpSendSession := Some a, srtpRecvSession := Some b\<rparr>))"
  by (auto simp: connect_srtp_def Let_def split: if_splits option.splits sum.splits)

lemma connect_resolve_Throw_state:
  "connect_resolve env t a p = Throw e t' \<Longrightarrow>
     t' = t \<and> GetFamily env a = AF_UNSPEC \<and>
     e = MediaSoupError (''invalid IP '' @ [CHR 0x27] @ a @ [CHR 0x27])"
  by (auto simp: connect_resolve_def split: family.splits sum.splits)

lemma connect_resolve_Return_state:
  "connect_resolve env t a p = Return addr t' \<Longrightarrow> t' = t\<lparr>remoteAddrStorage := Some addr\<rparr>"
  by (auto simp: connect_resolve_def split: family.splits sum.splits)

lemma connect_try_Throw_state:
  assumes "connect_try env t d = Throw e t1"
  shows "connect_rollback t1 = connect_rollback t"
proof -
  from assms consider
      (ip) "t1 = t"
    | (srtp) "connect_srtp env t d = Throw e t1"
    | (resolve) u t2 a p where "connect_srtp env t d = Return u t2"
        "connect_resolve env t2 a p = Throw e t1"
    by (auto simp: connect_try_def split: sum.splits result.splits)
  then show ?thesis
  proof cases
    case ip
    then show ?thesis by simp
  next
    case srtp
    then show ?thesis by (rule connect_srtp_Throw_state)
  next
    case resolve
    from resolve(2) have "t1 = t2" by (simp add: connect_resolve_Throw_state)
    with connect_srtp_Return_state [OF resolve(1)] show ?thesis
      by (auto simp: connect_rollback_def)
  qed
qed

lemma connect_Throw_unconnected:
  assumes "tuple t = None" and "connect env t d = Throw e t'"
  shows "t' = connect_rollback t"
  using assms connect_try_Throw_state [of env t d e]
  by (auto simp: connect_def split: result.splits option.splits)

lemma connect_rollback_fresh:
  "tuple t = None \<Longrightarrow> srtpSendSession t = None \<Longrightarrow> srtpRecvSession t = None \<Longrightarrow>
     connect_rollback t = t"
  by (simp add: connect_rollback_def)

lemma connect_try_Return_state:
  assumes "connect_try env t d = Return u t'"
  shows "tuple t' \<noteq> None \<and> srtpKey t' = srtpKey t \<and>
         (if HasSrtp t then srtpSendSession t' \<noteq> None \<and> srtpRecvSession t' \<noteq> None
          else srtpSendSession t' = srtpSendSession t \<and> srtpRecvSession t' = srtpRecvSession t)"
proof -
  from assms obtain t1 t2 a p addr v where
      s: "connect_srtp env t d = Return v t1"
      and r: "connect_resolve env t1 a p = Return addr t2"
      and t': "t' = connect_tuple t2 addr"
    by (auto simp: connect_try_def split: sum.splits result.splits)
  from r have "t2 = t1\<lparr>remoteAddrStorage := Some addr\<rparr>" by (rule connect_resolve_Return_state)
  with connect_srtp_Return_state [OF s] t' show ?thesis
    by (auto simp: connect_tuple_def Let_def HasSrtp_def)
qed

lemma connect_preserves_consistent:
  assumes "sessions_consistent t"
    and "connect env t d = Return r t' \<or> connect env t d = Throw e t'"
  shows "sessions_consistent t'"
proof (cases "tuple t = None")
  case False
  with assms show ?thesis by (auto simp: connect_def)
next
  case True
  from assms(2) show ?thesis
  proof
    assume "connect env t d = Throw e t'"
    with True have "t' = connect_rollback t" by (rule connect_Throw_unconnected)
    then show ?thesis by (simp add: sessions_consistent_def connect_rollback_def)
  next
    assume "connect env t d = Return r t'"
    with True obtain u t1 where "connect_try env t d = Return u t1" "t' = record_call EvConnected t1"
      by (auto simp: connect_def split: result.splits option.splits)
    with connect_try_Return_state [of env t d u t1] assms(1) True show ?thesis
      by (auto simp: sessions_consistent_def record_call_def HasSrtp_def split: if_splits)
  qed
qed

section \<open>The session pair across the pipelines\<close>

lemmas handler_defs = SendRtpPacket_def send_rtcp_buffer_def SendRtcpPacket_def
  SendRtcpCompoundPacket_def SendSctpData_def OnRtpDataReceived_def OnRtcpDataReceived_def
  OnSctpDataReceived_def OnPacketReceived_def OnUdpSocketPacketReceived_def
  fail_callback_def send_and_count_def decrypt_failed_def parse_rtp_and_forward_def
  parse_rtcp_and_forward_def record_call_def IsConnected_def

lemma SendRtpPacket_consistent:
  "sessions_consistent t \<Longrightarrow> SendRtpPacket env t p cb = Some t' \<Longrightarrow> sessions_consistent t'"
  by (auto simp: handler_defs sessions_consistent_def HasSrtp_def Let_def
      split: if_splits option.splits prod.splits)

lemma send_rtcp_buffer_consistent:
  "sessions_consistent t \<Longrightarrow> send_rtcp_buffer env t d = Some t' \<Longrightarrow> sessions_consistent t'"
  by (auto simp: handler_defs sessions_consistent_def HasSrtp_def Let_def
      split: if_splits option.splits prod.splits)

lemma SendSctpData_consistent:
  "sessions_consistent t \<Longrightarrow> SendSctpData env t d = Some t' \<Longrightarrow> sessions_consistent t'"
  by (auto simp: handler_defs sessions_consistent_def HasSrtp_def Let_def
      split: if_splits option.splits prod.splits)

lemma OnRtpDataReceived_consistent:
  "sessions_consistent t \<Longrightarrow> OnRtpDataReceived env t tup d = Some t' \<Longrightarrow> sessions_consistent t'"
  by (auto simp: handler_defs sessions_consistent_def HasSrtp_def Let_def
      split: if_splits option.splits prod.splits)

lemma OnRtcpDataReceived_consistent:
  "sessions_consistent t \<Longrightarrow> OnRtcpDataReceived env t tup d = Some t' \<Longrightarrow> sessions_consistent t'"
  by (auto simp: handler_defs sessions_consistent_def HasSrtp_def Let_def
      split: if_splits option.splits prod.splits)

lemma OnSctpDataReceived_consistent:
  "sessions_consistent t \<Longrightarrow> OnSctpDataReceived env t tup d = Some t' \<Longrightarrow> sessions_consistent t'"
  by (auto simp: handler_defs sessions_consistent_def HasSrtp_def Let_def
      split: if_splits option.splits prod.splits)

lemma record_call_consistent:
  "sessions_consistent (record_call c t) = sessions_consistent t"
  by (simp add: sessions_consistent_def record_call_def HasSrtp_def)

lemma OnPacketReceived_consistent:
  "sessions_consistent t \<Longrightarrow> OnPacketReceived env t tup d = Some t' \<Longrightarrow> sessions_consistent t'"
  unfolding OnPacketReceived_def Let_def
  using OnRtpDataReceived_consistent [of "record_call (EvDataReceived (length d)) t" env tup d t']
    OnRtcpDataReceived_consistent [of "record_call (EvDataReceived (length d)) t" env tup d t']
    OnSctpDataReceived_consistent [of "record_call (EvDataReceived (length d)) t" env tup d t']
  by (auto simp: record_call_consistent split: if_splits)

lemma step_consistent:
  assumes "sessions_consistent t" and "step env t ev = Some t'"
  shows "sessions_consistent t'"
proof (cases ev)
  case (Connect d)
  with assms(2) obtain r e where
    "connect env t d = Return r t' \<or> connect env t d = Throw e t'"
    by (auto simp: step_def HandleRequest_def split: result.splits)
  with assms(1) show ?thesis by (rule connect_preserves_consistent)
next
  case (SendRtp packet cb)
  with assms show ?thesis by (auto simp: step_def dest: SendRtpPacket_consistent)
next
  case (SendRtcp packet)
  with assms show ?thesis
    by (auto simp: step_def SendRtcpPacket_def dest: send_rtcp_buffer_consistent)
next
  case (SendRtcpCompound packet)
  with assms show ?thesis
    by (auto simp: step_def SendRtcpCompoundPacket_def dest: send_rtcp_buffer_consistent)
next
  case (SendSctp d)
  with assms show ?thesis by (auto simp: step_def dest: SendSctpData_consistent)
next
  case (Datagram sock d remoteAddr)
  with assms show ?thesis
    by (auto simp: step_def OnUdpSocketPacketReceived_def dest: OnPacketReceived_consistent)
qed

lemma run_consistent:
  "sessions_consistent t \<Longrightarrow> run env t evs = Some t' \<Longrightarrow> sessions_consistent t'"
proof (induction evs arbitrary: t)
  case Nil
  then show ?case by simp
next
  case (Cons ev evs)
  then show ?case
    by (auto split: option.splits dest: step_consistent)
qed

lemma PipeTransport_new_state:
  "PipeTransport_new env d = Inr t \<Longrightarrow>
     tuple t = None \<and> srtpSendSession t = None \<and> srtpRecvSession t = None \<and> calls t = [] \<and>
     rtx t = ctor_rtx d \<and> srtpKey t = ctor_srtpKey env d"
  by (auto simp: PipeTransport_new_def split: option.splits sum.splits if_splits)

lemma PipeTransport_new_consistent:
  "PipeTransport_new env d = Inr t \<Longrightarrow> sessions_consistent t"
  by (drule PipeTransport_new_state) (simp add: sessions_consistent_def)

lemma sessions_consistent_paired:
  "sessions_consistent t \<Longrightarrow> (srtpSendSession t = None) = (srtpRecvSession t = None)"
  by (auto simp: sessions_consistent_def split: if_splits)

text \<open>
  C2, as the code has it: a connect call on an Unconnected transport that throws
  (a validation failure, a failure to create a session, or an address of unknown
  family) leaves both sessions absent, the remote binding absent and the transport
  Unconnected; the transport is the one before the call with its sessions
  cleared, so when they were absent before the call (as the constructor and every
  failed call leave them) it is exactly the transport before the call, and any later
  request is handled as it would have been without the failed call. Along every
  sequence of calls on a constructed transport the two sessions are both
  present or both absent, and both absent while Unconnected. A repeated call, on
  a Connected transport, also throws, and leaves the binding present and the
  transport Connected.
\<close>

theorem connect_all_or_nothing:
  "(tuple t = None \<and>
    HandleRequest env t \<lparr> methodId = TRANSPORT_CONNECT, data = d \<rparr> = Throw e t' \<longrightarrow>
      srtpSendSession t' = None \<and> srtpRecvSession t' = None \<and> tuple t' = None \<and>
      \<not> IsConnected t' \<and>
      t' = t\<lparr>srtpSendSession := None, srtpRecvSession := None\<rparr> \<and>
      (srtpSendSession t = None \<and> srtpRecvSession t = None \<longrightarrow>
         t' = t \<and> HandleRequest env t' = HandleRequest env t)) \<and>
   (PipeTransport_new env cfg = Inr t0 \<and> run env t0 evs = Some t1 \<longrightarrow>
      (srtpSendSession t1 = None) = (srtpRecvSession t1 = None) \<and>
      (tuple t1 = None \<longrightarrow> srtpSendSession t1 = None \<and> srtpRecvSession t1 = None)) \<and>
   (tuple t \<noteq> None \<longrightarrow>
      HandleRequest env t \<lparr> methodId = TRANSPORT_CONNECT, data = d \<rparr> =
        Throw (MediaSoupError ''connect() already called'') t \<and>
      IsConnected t)"
proof (intro conjI impI)
  assume a: "tuple t = None \<and>
    HandleRequest env t \<lparr> methodId = TRANSPORT_CONNECT, data = d \<rparr> = Throw e t'"
  then have t': "t' = connect_rollback t"
    using connect_Throw_unconnected [of t env d e t'] by (simp add: HandleRequest_def)
  with a show "srtpSendSession t' = None" "srtpRecvSession t' = None" "tuple t' = None"
      "\<not> IsConnected t'" "t' = t\<lparr>srtpSendSession := None, srtpRecvSession := None\<rparr>"
    by (simp_all add: connect_rollback_def IsConnected_def)
  assume "srtpSendSession t = None \<and> srtpRecvSession t = None"
  with a t' show "t' = t" "HandleRequest env t' = HandleRequest env t"
    by (simp_all add: connect_rollback_fresh)
next
  assume b: "PipeTransport_new env cfg = Inr t0 \<and> run env t0 evs = Some t1"
  then have c: "sessions_consistent t1"
    using PipeTransport_new_consistent [of env cfg t0] run_consistent [of t0 env evs t1] by blast
  then show "(srtpSendSession t1 = None) = (srtpRecvSession t1 = None)"
    by (rule sessions_consistent_paired)
  assume "tuple t1 = None"
  with c show "srtpSendSession t1 = None" "srtpRecvSession t1 = None"
    by (simp_all add: sessions_consistent_def)
next
  assume "tuple t \<noteq> None"
  then show "HandleRequest env t \<lparr> methodId = TRANSPORT_CONNECT, data = d \<rparr> =
        Throw (MediaSoupError ''connect() already called'') t" "IsConnected t"
    by (simp_all add: HandleRequest_def connect_def IsConnected_def)
qed

lemma connect_key_16:
  "HandleRequest loopback_env srtp_transport
       \<lparr> methodId = TRANSPORT_CONNECT, data = connect_5004_key 16 \<rparr> =
     Throw (MediaSoupTypeError ''invalid srtpKey length'') srtp_transport"
  by (simp add: HandleRequest_def connect_defs sample_defs)

lemma connect_key_30:
  "HandleRequest loopback_env srtp_transport
       \<lparr> methodId = TRANSPORT_CONNECT, data = connect_5004_key 30 \<rparr> =
     Return (JObject [(''tuple'', TransportTuple_FillJson (loopback_tuple 0))]) connected_srtp"
  by (simp add: HandleRequest_def connect_defs sample_defs)

lemma connect_no_inbound:
  "HandleRequest no_inbound_env srtp_transport
       \<lparr> methodId = TRANSPORT_CONNECT, data = connect_5004_key 30 \<rparr> =
     Throw (MediaSoupError ''error creating SRTP receiving session: srtp_create() failed'')
       srtp_transport"
  by (simp add: HandleRequest_def connect_defs sample_defs no_inbound_env_def)

lemma new_srtp_config: "PipeTransport_new loopback_env srtp_config = Inr srtp_transport"
  by (simp add: PipeTransport_new_def ctor_announcedIp_def ctor_rtx_def ctor_srtpKey_def
      srtp_config_def sample_defs SrtpMasterLength_def)

lemma run_fail_then_connect:
  "run loopback_env srtp_transport [Connect (connect_5004_key 16), Connect (connect_5004_key 30)] =
     Some connected_srtp"
  by (simp add: step_def connect_key_16 connect_key_30)

theorem connect_all_or_nothing_witness:
  "tuple srtp_transport = None \<and>
   HandleRequest no_inbound_env srtp_transport
       \<lparr> methodId = TRANSPORT_CONNECT, data = connect_5004_key 30 \<rparr> =
     Throw (MediaSoupError ''error creating SRTP receiving session: srtp_create() failed'')
       srtp_transport \<and>
   HandleRequest loopback_env srtp_transport
       \<lparr> methodId = TRANSPORT_CONNECT, data = connect_5004_key 16 \<rparr> =
     Throw (MediaSoupTypeError ''invalid srtpKey length'') srtp_transport \<and>
   srtpSendSession srtp_transport = None \<and> srtpRecvSession srtp_transport = None \<and>
   HandleRequest loopback_env srtp_transport
       \<lparr> methodId = TRANSPORT_CONNECT, data = connect_5004_key 30 \<rparr> =
     Return (JObject [(''tuple'', TransportTuple_FillJson (loopback_tuple 0))]) connected_srtp \<and>
   PipeTransport_new loopback_env srtp_config = Inr srtp_transport \<and>
   run loopback_env srtp_transport
       [Connect (connect_5004_key 16), Connect (connect_5004_key 30)] = Some connected_srtp \<and>
   (srtpSendSession connected_srtp = None) = (srtpRecvSession connected_srtp = None) \<and>
   tuple connected_srtp \<noteq> None \<and>
   HandleRequest loopback_env connected_srtp
       \<lparr> methodId = TRANSPORT_CONNECT, data = connect_5004_key 30 \<rparr> =
     Throw (MediaSoupError ''connect() already called'') connected_srtp"
proof -
  have unconnected: "tuple srtp_transport = None"
    and absent: "srtpSendSession srtp_transport = None" "srtpRecvSession srtp_transport = None"
    and connected: "tuple connected_srtp \<noteq> None"
    by (simp_all add: sample_defs)
  have again: "HandleRequest loopback_env connected_srtp
       \<lparr> methodId = TRANSPORT_CONNECT, data = connect_5004_key 30 \<rparr> =
     Throw (MediaSoupError ''connect() already called'') connected_srtp"
    using connect_all_or_nothing [where t = connected_srtp and env = loopback_env
         and d = "connect_5004_key 30", THEN conjunct2, THEN conjunct2] connected
    by blast
  from connect_all_or_nothing [where t = srtp_transport and env = loopback_env
         and d = "connect_5004_key 16" and e = "MediaSoupTypeError ''invalid srtpKey length''"
         and t' = srtp_transport and cfg = srtp_config and ?t0.0 = srtp_transport
         and evs = "[Connect (connect_5004_key 16), Connect (connect_5004_key 30)]"
         and ?t1.0 = connected_srtp]
    unconnected absent connected again connect_key_16 connect_key_30 connect_no_inbound
    new_srtp_config run_fail_then_connect
  show ?thesis by simp
qed

text \<open>
  C2 as stated fails for the repeated call it lists: after the scenario's connect
  has succeeded, the same request throws ``connect() already called'' and the
  remote binding is present afterwards; the transport is Connected, not
  Unconnected.
\<close>

theorem connect_repeated_keeps_binding:
  "HandleRequest loopback_env plain_transport
       \<lparr> methodId = TRANSPORT_CONNECT, data = connect_5004 \<rparr> =
     Return (JObject [(''tuple'', TransportTuple_FillJson (loopback_tuple 0))]) connected_plain \<and>
   HandleRequest loopback_env connected_plain
       \<lparr> methodId = TRANSPORT_CONNECT, data = connect_5004 \<rparr> =
     Throw (MediaSoupError ''connect() already called'') connected_plain \<and>
   tuple connected_plain = Some (loopback_tuple 0) \<and>
   IsConnected connected_plain"
  by (simp add: HandleRequest_def connect_defs sample_defs IsConnected_def)

section \<open>Connect: resolving the remote address\<close>

lemma connect_after_srtp:
  assumes "tuple t = None"
    and "find_json d ''ip'' = Some (JString addr)" and "NormalizeIp env addr = Inr nip"
    and "find_json d ''port'' = Some pv" and "IsPositiveInteger env pv"
    and "connect_srtp env t d = Return u t1"
  shows "connect env t d =
     (case connect_resolve env t1 nip 0 of
        Throw e t2 \<Rightarrow> Throw e (connect_rollback t2)
      | Abort m \<Rightarrow> Abort m
      | Return sa t2 \<Rightarrow>
          Return (JObject [(''tuple'', TransportTuple_FillJson
                    (if announcedIp (listenIp t2) \<noteq> []
                     then SetLocalAnnouncedIp (announcedIp (listenIp t2))
                            (TransportTuple_new (socket t2) sa)
                     else TransportTuple_new (socket t2) sa))])
                 (record_call EvConnected (connect_tuple t2 sa)))"
  using assms connect_ip_Inr [of d addr env nip] connect_port_Inr [of d pv env]
  by (auto simp: connect_def connect_try_def connect_tuple_def Let_def split: result.splits)

text \<open>
  The ways the resolution of the remote address ends, for a connect request on
  an Unconnected transport whose \<^verbatim>\<open>ip\<close> and \<^verbatim>\<open>port\<close> passed validation
  and whose key stage succeeded, by the family of the normalized address.
\<close>

lemma connect_resolution_cases:
  assumes "tuple t = None"
    and "find_json d ''ip'' = Some (JString addr)" and "NormalizeIp env addr = Inr nip"
    and "find_json d ''port'' = Some pv" and "IsPositiveInteger env pv"
    and "connect_srtp env t d = Return u t1"
  shows "(GetFamily env nip = AF_INET \<and> uv_inet_pton env AF_INET nip \<noteq> 0 \<longrightarrow>
            connect env t d =
              Abort (''uv_ip4_addr() failed: '' @ uv_strerror env (uv_inet_pton env AF_INET nip))) \<and>
         (GetFamily env nip = AF_INET6 \<and> uv_inet_pton env AF_INET6 nip \<noteq> 0 \<longrightarrow>
            connect env t d =
              Abort (''uv_ip6_addr() failed: '' @ uv_strerror env (uv_inet_pton env AF_INET6 nip))) \<and>
         (GetFamily env nip \<noteq> AF_UNSPEC \<and> uv_inet_pton env (GetFamily env nip) nip = 0 \<longrightarrow>
            (\<exists>r t'. connect env t d = Return r t')) \<and>
         (GetFamily env nip \<noteq> AF_UNSPEC \<longrightarrow> (\<forall>e t'. connect env t d \<noteq> Throw e t')) \<and>
         (GetFamily env nip = AF_UNSPEC \<longrightarrow>
            connect env t d =
              Throw (MediaSoupError (''invalid IP '' @ [CHR 0x27] @ nip @ [CHR 0x27]))
                    (t\<lparr>srtpSendSession := None, srtpRecvSession := None\<rparr>))"
proof -
  note c = connect_after_srtp [OF assms]
  have rb: "connect_rollback t1 = t\<lparr>srtpSendSession := None, srtpRecvSession := None\<rparr>"
    using connect_srtp_Return_state [OF assms(6)] assms(1)
    by (auto simp: connect_rollback_def)
  show ?thesis
    by (cases "GetFamily env nip")
       (auto simp: c rb connect_resolve_def uv_ip4_addr_def uv_ip6_addr_def Let_def)
qed

text \<open>An error thrown by the resolution never comes with a family of IPv4 or IPv6.\<close>

lemma connect_Throw_origin:
  assumes "tuple t = None"
    and "find_json d ''ip'' = Some (JString addr)" and "NormalizeIp env addr = Inr nip"
    and "find_json d ''port'' = Some pv" and "IsPositiveInteger env pv"
    and "connect env t d = Throw e t'"
  shows "(\<exists>t1. connect_srtp env t d = Throw e t1) \<or> GetFamily env nip = AF_UNSPEC"
proof (cases "connect_srtp env t d")
  case (Return u t1)
  from connect_resolution_cases [OF assms(1-5) Return] assms(6) show ?thesis
    by blast
next
  case (Throw e1 t1)
  with assms connect_ip_Inr [of d addr env nip] connect_port_Inr [of d pv env]
  show ?thesis by (auto simp: connect_def connect_try_def)
next
  case (Abort m)
  with assms connect_ip_Inr [of d addr env nip] connect_port_Inr [of d pv env]
  show ?thesis by (auto simp: connect_def connect_try_def)
qed

text \<open>
  C9: under the contract of the ip validation (an address that normalization
  returns is of family IPv4 or IPv6), for every connect request on an Unconnected
  transport whose \<^verbatim>\<open>ip\<close> passed normalization and whose \<^verbatim>\<open>port\<close> passed
  validation, the address-family dispatch succeeds: the \<^verbatim>\<open>default\<close> case of
  the switch is not taken. A failure of the resolution is then a failure of
  \<^verbatim>\<open>uv_ip4_addr\<close> or \<^verbatim>\<open>uv_ip6_addr\<close> and aborts the process
  (\<^verbatim>\<open>MS_ABORT\<close>); when libuv parses the address the call returns. No error of
  the resolution is thrown to the caller: every error the call throws is one the
  key stage threw, before the resolution.
\<close>

theorem connect_resolution_failure_is_fatal:
  assumes "family_contract env" and "tuple t = None"
    and "find_json d ''ip'' = Some (JString addr)" and "NormalizeIp env addr = Inr nip"
    and "find_json d ''port'' = Some pv" and "IsPositiveInteger env pv"
  shows "(GetFamily env nip = AF_INET \<or> GetFamily env nip = AF_INET6) \<and>
         (\<forall>u t1. connect_srtp env t d = Return u t1 \<longrightarrow>
            (uv_inet_pton env (GetFamily env nip) nip \<noteq> 0 \<longrightarrow>
               HandleRequest env t \<lparr> methodId = TRANSPORT_CONNECT, data = d \<rparr> =
                 Abort ((if GetFamily env nip = AF_INET then ''uv_ip4_addr() failed: ''
                         else ''uv_ip6_addr() failed: '') @
                        uv_strerror env (uv_inet_pton env (GetFamily env nip) nip))) \<and>
            (uv_inet_pton env (GetFamily env nip) nip = 0 \<longrightarrow>
               (\<exists>r t'. HandleRequest env t \<lparr> methodId = TRANSPORT_CONNECT, data = d \<rparr> =
                         Return r t')) \<and>
            (\<forall>e t'. HandleRequest env t \<lparr> methodId = TRANSPORT_CONNECT, data = d \<rparr> \<noteq>
                      Throw e t')) \<and>
         (\<forall>e t'. HandleRequest env t \<lparr> methodId = TRANSPORT_CONNECT, data = d \<rparr> =
                   Throw e t' \<longrightarrow>
            (\<exists>t1. connect_srtp env t d = Throw e t1))"
  (is "?dispatch \<and> ?resolution \<and> ?thrown")
proof -
  have handle: "HandleRequest env t \<lparr> methodId = TRANSPORT_CONNECT, data = d \<rparr> = connect env t d"
    by (simp add: HandleRequest_def)
  have dispatch: ?dispatch
    using assms(1,4) unfolding family_contract_def by blast
  then have known: "GetFamily env nip \<noteq> AF_UNSPEC"
    by auto
  have ?resolution
  proof (intro allI impI)
    fix u t1
    assume "connect_srtp env t d = Return u t1"
    note cases = connect_resolution_cases [OF assms(2-6) this]
    from dispatch cases known
    show "(uv_inet_pton env (GetFamily env nip) nip \<noteq> 0 \<longrightarrow>
               HandleRequest env t \<lparr> methodId = TRANSPORT_CONNECT, data = d \<rparr> =
                 Abort ((if GetFamily env nip = AF_INET then ''uv_ip4_addr() failed: ''
                         else ''uv_ip6_addr() failed: '') @
                        uv_strerror env (uv_inet_pton env (GetFamily env nip) nip))) \<and>
            (uv_inet_pton env (GetFamily env nip) nip = 0 \<longrightarrow>
               (\<exists>r t'. HandleRequest env t \<lparr> methodId = TRANSPORT_CONNECT, data = d \<rparr> =
                         Return r t')) \<and>
            (\<forall>e t'. HandleRequest env t \<lparr> methodId = TRANSPORT_CONNECT, data = d \<rparr> \<noteq>
                      Throw e t')"
      unfolding handle by auto
  qed
  moreover have ?thrown
    unfolding handle using connect_Throw_origin [OF assms(2-6)] known by blast
  ultimately show ?thesis using dispatch by blast
qed

theorem connect_resolution_failure_is_fatal_witness:
  "family_contract loopback_env \<and> family_contract unparsable_env \<and>
   tuple plain_transport = None \<and>
   find_json connect_5004 ''ip'' = Some (JString ''127.0.0.1'') \<and>
   NormalizeIp loopback_env ''127.0.0.1'' = Inr ''127.0.0.1'' \<and>
   find_json connect_5004 ''port'' = Some (JUInt 5004) \<and>
   IsPositiveInteger loopback_env (JUInt 5004) \<and>
   connect_srtp loopback_env plain_transport connect_5004 = Return () plain_transport \<and>
   GetFamily loopback_env ''127.0.0.1'' = AF_INET \<and>
   uv_inet_pton loopback_env AF_INET ''127.0.0.1'' = 0 \<and>
   (\<exists>r t'. HandleRequest loopback_env plain_transport
        \<lparr> methodId = TRANSPORT_CONNECT, data = connect_5004 \<rparr> = Return r t') \<and>
   (\<forall>e t'. HandleRequest loopback_env plain_transport
        \<lparr> methodId = TRANSPORT_CONNECT, data = connect_5004 \<rparr> \<noteq> Throw e t') \<and>
   connect_srtp unparsable_env plain_transport connect_5004 = Return () plain_transport \<and>
   uv_inet_pton unparsable_env AF_INET ''127.0.0.1'' = - 22 \<and>
   HandleRequest unparsable_env plain_transport
       \<lparr> methodId = TRANSPORT_CONNECT, data = connect_5004 \<rparr> =
     Abort ''uv_ip4_addr() failed: invalid argument''"
proof -
  have contract: "family_contract loopback_env" "family_contract unparsable_env"
    by (auto simp: family_contract_def unparsable_env_def loopback_env_def split: if_splits)
  have pre: "tuple plain_transport = None"
      "find_json connect_5004 ''ip'' = Some (JString ''127.0.0.1'')"
      "find_json connect_5004 ''port'' = Some (JUInt 5004)"
    by (simp_all add: sample_defs)
  have env1: "NormalizeIp loopback_env ''127.0.0.1'' = Inr ''127.0.0.1''"
      "IsPositiveInteger loopback_env (JUInt 5004)"
      "connect_srtp loopback_env plain_transport connect_5004 = Return () plain_transport"
      "GetFamily loopback_env ''127.0.0.1'' = AF_INET"
      "uv_inet_pton loopback_env AF_INET ''127.0.0.1'' = 0"
    by (simp_all add: sample_defs connect_srtp_def HasSrtp_def)
  have env2: "NormalizeIp unparsable_env ''127.0.0.1'' = Inr ''127.0.0.1''"
      "IsPositiveInteger unparsable_env (JUInt 5004)"
      "connect_srtp unparsable_env plain_transport connect_5004 = Return () plain_transport"
      "GetFamily unparsable_env ''127.0.0.1'' = AF_INET"
      "uv_inet_pton unparsable_env AF_INET ''127.0.0.1'' = - 22"
      "uv_strerror unparsable_env (- 22) = ''invalid argument''"
    by (simp_all add: unparsable_env_def sample_defs connect_srtp_def HasSrtp_def)
  note ok = connect_resolution_failure_is_fatal
    [OF contract(1) pre(1) pre(2) env1(1) pre(3) env1(2), THEN conjunct2, THEN conjunct1,
     rule_format, OF env1(3)]
  note fatal = connect_resolution_failure_is_fatal
    [OF contract(2) pre(1) pre(2) env2(1) pre(3) env2(2), THEN conjunct2, THEN conjunct1,
     rule_format, OF env2(3)]
  have returns: "\<exists>r t'. HandleRequest loopback_env plain_transport
        \<lparr> methodId = TRANSPORT_CONNECT, data = connect_5004 \<rparr> = Return r t'"
    using ok env1(4,5) by simp
  have never: "\<forall>e t'. HandleRequest loopback_env plain_transport
        \<lparr> methodId = TRANSPORT_CONNECT, data = connect_5004 \<rparr> \<noteq> Throw e t'"
    using ok by blast
  have aborts: "HandleRequest unparsable_env plain_transport
       \<lparr> methodId = TRANSPORT_CONNECT, data = connect_5004 \<rparr> =
     Abort ''uv_ip4_addr() failed: invalid argument''"
    using fatal env2(4,5,6) by simp
  from contract pre env1 env2(3,5) returns never aborts show ?thesis
    by blast
qed

section \<open>The inbound pipeline: counting and classification\<close>

lemma appended_calls:
  assumes "take (length xs) ys = xs \<and> list_all no_counter_call (drop (length xs) ys)"
  shows "\<exists>cs. ys = xs @ cs \<and> list_all no_counter_call cs"
proof -
  have "ys = take (length xs) ys @ drop (length xs) ys" by simp
  with assms have "ys = xs @ drop (length xs) ys" by simp
  with assms show ?thesis by blast
qed

lemma OnRtpDataReceived_calls:
  "OnRtpDataReceived env t tup d = Some t' \<Longrightarrow>
     \<exists>cs. calls t' = calls t @ cs \<and> list_all no_counter_call cs"
  by (rule appended_calls)
     (auto simp: OnRtpDataReceived_def decrypt_failed_def parse_rtp_and_forward_def
        record_call_def no_counter_call_def Let_def
      split: if_splits option.splits prod.splits)

lemma OnRtcpDataReceived_calls:
  "OnRtcpDataReceived env t tup d = Some t' \<Longrightarrow>
     \<exists>cs. calls t' = calls t @ cs \<and> list_all no_counter_call cs"
  by (rule appended_calls)
     (auto simp: OnRtcpDataReceived_def parse_rtcp_and_forward_def
        record_call_def no_counter_call_def Let_def
      split: if_splits option.splits prod.splits)

lemma OnSctpDataReceived_calls:
  "OnSctpDataReceived env t tup d = Some t' \<Longrightarrow>
     \<exists>cs. calls t' = calls t @ cs \<and> list_all no_counter_call cs"
  by (rule appended_calls)
     (auto simp: OnSctpDataReceived_def record_call_def no_counter_call_def
      split: if_splits option.splits)

lemma no_counter_received: "list_all no_counter_call cs \<Longrightarrow> sum_list (map received_amount cs) = 0"
  by (induction cs) (auto simp: no_counter_call_def)

lemma no_counter_sent: "list_all no_counter_call cs \<Longrightarrow> sum_list (map sent_amount cs) = 0"
  by (induction cs) (auto simp: no_counter_call_def)

lemma after_DataReceived:
  assumes "\<exists>cs. calls t' = calls (record_call c t) @ cs \<and> list_all no_counter_call cs"
  shows "\<exists>cs. calls t' = calls t @ c # cs \<and> list_all no_counter_call cs"
proof -
  from assms obtain cs where "calls t' = calls (record_call c t) @ cs" "list_all no_counter_call cs"
    by blast
  then have "calls t' = calls t @ c # cs \<and> list_all no_counter_call cs"
    by (simp add: record_call_def)
  then show ?thesis ..
qed

lemma OnPacketReceived_calls:
  assumes "OnPacketReceived env t tup d = Some t'"
  shows "\<exists>cs. calls t' = calls t @ EvDataReceived (length d) # cs \<and> list_all no_counter_call cs"
proof -
  let ?t1 = "record_call (EvDataReceived (length d)) t"
  consider (rtcp) "IsRtcp env d" | (rtp) "\<not> IsRtcp env d" "IsRtp env d"
    | (sctp) "\<not> IsRtcp env d" "\<not> IsRtp env d" "IsSctp env d"
    | (unknown) "\<not> IsRtcp env d" "\<not> IsRtp env d" "\<not> IsSctp env d"
    by blast
  then show ?thesis
  proof cases
    case rtcp
    with assms have "OnRtcpDataReceived env ?t1 tup d = Some t'"
      by (simp add: OnPacketReceived_def Let_def)
    then show ?thesis by (intro after_DataReceived OnRtcpDataReceived_calls)
  next
    case rtp
    with assms have "OnRtpDataReceived env ?t1 tup d = Some t'"
      by (simp add: OnPacketReceived_def Let_def)
    then show ?thesis by (intro after_DataReceived OnRtpDataReceived_calls)
  next
    case sctp
    with assms have "OnSctpDataReceived env ?t1 tup d = Some t'"
      by (simp add: OnPacketReceived_def Let_def)
    then show ?thesis by (intro after_DataReceived OnSctpDataReceived_calls)
  next
    case unknown
    with assms have "t' = record_call (EvLog ''ignoring received packet of unknown type'' []) ?t1"
      by (simp add: OnPacketReceived_def Let_def)
    then have "calls t' = calls t @ EvDataReceived (length d) #
        [EvLog ''ignoring received packet of unknown type'' []] \<and>
      list_all no_counter_call [EvLog ''ignoring received packet of unknown type'' []]"
      by (simp add: record_call_def no_counter_call_def)
    then show ?thesis ..
  qed
qed

lemma receive_handlers_return:
  assumes "sessions_consistent t"
  shows "\<exists>t'. OnRtpDataReceived env t tup d = Some t'"
    and "\<exists>t'. OnRtcpDataReceived env t tup d = Some t'"
    and "\<exists>t'. OnSctpDataReceived env t tup d = Some t'"
  using assms
  by (auto simp: OnRtpDataReceived_def OnRtcpDataReceived_def OnSctpDataReceived_def
        sessions_consistent_def Let_def
      split: option.splits prod.splits if_splits)

lemma OnPacketReceived_returns:
  assumes "sessions_consistent t"
  shows "\<exists>t'. OnPacketReceived env t tup d = Some t'"
proof -
  have "sessions_consistent (record_call (EvDataReceived (length d)) t)"
    using assms by (simp add: record_call_consistent)
  from receive_handlers_return [OF this, of env tup d] show ?thesis
    by (auto simp: OnPacketReceived_def Let_def)
qed

text \<open>
  C5: for every received datagram, whatever the connection state, the first call
  made is \<^verbatim>\<open>DataReceived\<close> with the datagram's length, and when the handler
  returns the bytes-received counter has grown by exactly that length and the
  bytes-sent counter has not changed. The classifiers are then tried in the
  order RTCP, RTP, SCTP and the first that matches selects the handler. A
  datagram that matches none only adds the log entry ``ignoring received packet
  of unknown type'': nothing is forwarded and nothing else changes. On a transport
  whose sessions are consistent the handler returns.
\<close>

theorem OnPacketReceived_counts_then_classifies:
  "(OnPacketReceived env t tup d = Some t' \<longrightarrow>
      (\<exists>cs. calls t' = calls t @ EvDataReceived (length d) # cs \<and>
            list_all no_counter_call cs) \<and>
      bytesReceived t' = bytesReceived t + length d \<and>
      bytesSent t' = bytesSent t) \<and>
   (IsRtcp env d \<longrightarrow>
      OnPacketReceived env t tup d =
        OnRtcpDataReceived env (record_call (EvDataReceived (length d)) t) tup d) \<and>
   (\<not> IsRtcp env d \<and> IsRtp env d \<longrightarrow>
      OnPacketReceived env t tup d =
        OnRtpDataReceived env (record_call (EvDataReceived (length d)) t) tup d) \<and>
   (\<not> IsRtcp env d \<and> \<not> IsRtp env d \<and> IsSctp env d \<longrightarrow>
      OnPacketReceived env t tup d =
        OnSctpDataReceived env (record_call (EvDataReceived (length d)) t) tup d) \<and>
   (\<not> IsRtcp env d \<and> \<not> IsRtp env d \<and> \<not> IsSctp env d \<longrightarrow>
      OnPacketReceived env t tup d =
        Some (t\<lparr>calls := calls t @
                 [EvDataReceived (length d),
                  EvLog ''ignoring received packet of unknown type'' []]\<rparr>)) \<and>
   (sessions_consistent t \<longrightarrow> (\<exists>t''. OnPacketReceived env t tup d = Some t''))"
  (is "?counts \<and> ?rtcp \<and> ?rtp \<and> ?sctp \<and> ?unknown \<and> ?returns")
proof (intro conjI)
  show ?counts
  proof
    assume "OnPacketReceived env t tup d = Some t'"
    from OnPacketReceived_calls [OF this] obtain cs where
      cs: "calls t' = calls t @ EvDataReceived (length d) # cs" "list_all no_counter_call cs"
      by blast
    have "bytesReceived t' = bytesReceived t + length d"
      using cs by (simp add: bytesReceived_def no_counter_received)
    moreover have "bytesSent t' = bytesSent t"
      using cs by (simp add: bytesSent_def no_counter_sent)
    ultimately show "(\<exists>cs. calls t' = calls t @ EvDataReceived (length d) # cs \<and>
            list_all no_counter_call cs) \<and>
      bytesReceived t' = bytesReceived t + length d \<and> bytesSent t' = bytesSent t"
      using cs by blast
  qed
  show ?rtcp by (simp add: OnPacketReceived_def Let_def)
  show ?rtp by (simp add: OnPacketReceived_def Let_def)
  show ?sctp by (simp add: OnPacketReceived_def Let_def)
  show ?unknown by (simp add: OnPacketReceived_def Let_def record_call_def)
  show ?returns using OnPacketReceived_returns [of t env tup d] by blast
qed

theorem OnPacketReceived_counts_then_classifies_witness:
  "\<not> IsRtcp loopback_env [1, 2, 3] \<and> \<not> IsRtp loopback_env [1, 2, 3] \<and>
   \<not> IsSctp loopback_env [1, 2, 3] \<and>
   OnPacketReceived loopback_env connected_plain (loopback_tuple 0) [1, 2, 3] =
     Some (connected_plain\<lparr>calls :=
       [EvConnected, EvDataReceived 3,
        EvLog ''ignoring received packet of unknown type'' []]\<rparr>) \<and>
   bytesReceived (connected_plain\<lparr>calls :=
       [EvConnected, EvDataReceived 3,
        EvLog ''ignoring received packet of unknown type'' []]\<rparr>) =
     bytesReceived connected_plain + 3 \<and>
   IsRtcp loopback_env [129, 0] \<and>
   OnPacketReceived loopback_env connected_plain (loopback_tuple 0) [129, 0] =
     Some (connected_plain\<lparr>calls :=
       [EvConnected, EvDataReceived 2, EvRtcpParse [129, 0],
        EvReceiveRtcpPacket \<lparr> rtcpData = [129, 0] \<rparr>]\<rparr>) \<and>
   \<not> IsRtcp loopback_env [128, 0] \<and> IsRtp loopback_env [128, 0] \<and>
   OnPacketReceived loopback_env connected_plain (loopback_tuple 0) [128, 0] =
     Some (connected_plain\<lparr>calls :=
       [EvConnected, EvDataReceived 2, EvRtpParse [128, 0],
        EvReceiveRtpPacket
          \<lparr> rtpData = [128, 0], ssrc = 7, payloadType = 96, sequenceNumber = 1 \<rparr>]\<rparr>) \<and>
   \<not> IsRtcp loopback_env [19, 0] \<and> \<not> IsRtp loopback_env [19, 0] \<and>
   IsSctp loopback_env [19, 0] \<and>
   OnPacketReceived loopback_env connected_plain (loopback_tuple 0) [19, 0] =
     Some (connected_plain\<lparr>calls :=
       [EvConnected, EvDataReceived 2, EvReceiveSctpData [19, 0]]\<rparr>) \<and>
   sessions_consistent connected_plain"
proof -
  note eval = handler_defs sample_defs TransportTuple_Compare_def HasSrtp_def
    sessions_consistent_def bytesReceived_def
  have unknown: "OnPacketReceived loopback_env connected_plain (loopback_tuple 0) [1, 2, 3] =
     Some (connected_plain\<lparr>calls :=
       [EvConnected, EvDataReceived 3,
        EvLog ''ignoring received packet of unknown type'' []]\<rparr>)"
    by (simp add: eval)
  from OnPacketReceived_counts_then_classifies [where env = loopback_env
        and t = connected_plain and tup = "loopback_tuple 0" and d = "[1, 2, 3]"
        and t' = "connected_plain\<lparr>calls :=
          [EvConnected, EvDataReceived 3,
           EvLog ''ignoring received packet of unknown type'' []]\<rparr>"]
       OnPacketReceived_counts_then_classifies [where env = loopback_env
        and t = connected_plain and tup = "loopback_tuple 0" and d = "[129, 0]"]
       OnPacketReceived_counts_then_classifies [where env = loopback_env
        and t = connected_plain and tup = "loopback_tuple 0" and d = "[128, 0]"]
       OnPacketReceived_counts_then_classifies [where env = loopback_env
        and t = connected_plain and tup = "loopback_tuple 0" and d = "[19, 0]"]
       unknown
  show ?thesis by (simp add: eval)
qed

section \<open>The inbound pipeline: origin check\<close>

lemma Compare_mismatch:
  "sa_addr (udpRemoteAddr tup) \<noteq> sa_addr (udpRemoteAddr own) \<or>
   sa_port (udpRemoteAddr tup) \<noteq> sa_port (udpRemoteAddr own) \<Longrightarrow>
     \<not> TransportTuple_Compare own tup"
  by (auto simp: TransportTuple_Compare_def)

text \<open>
  C6: on a connected transport, a datagram whose source address differs from the
  remote address of the binding in ip or in port makes each of the three
  handlers return after one log entry. Received through the socket and
  classified as RTCP, RTP or SCTP, it leaves the transport as it was but for the
  calls \<^verbatim>\<open>DataReceived\<close> and that log entry: no session was asked to
  decrypt, no parser was called, nothing was forwarded, the bytes-received
  counter grew by the datagram's length and the bytes-sent counter did not move.
  On an Unconnected transport the three handlers return without any call, so a
  classified datagram leaves the call \<^verbatim>\<open>DataReceived\<close> only.
\<close>

theorem spoofed_or_unconnected_dropped:
  "(tuple t = Some own \<and>
    (sa_addr (udpRemoteAddr tup) \<noteq> sa_addr (udpRemoteAddr own) \<or>
     sa_port (udpRemoteAddr tup) \<noteq> sa_port (udpRemoteAddr own)) \<longrightarrow>
      OnRtpDataReceived env t tup d =
        Some (t\<lparr>calls := calls t @ [EvLog ''ignoring RTP packet from unknown IP:port'' []]\<rparr>) \<and>
      OnRtcpDataReceived env t tup d =
        Some (t\<lparr>calls := calls t @ [EvLog ''ignoring RTCP packet from unknown IP:port'' []]\<rparr>) \<and>
      OnSctpDataReceived env t tup d =
        Some (t\<lparr>calls := calls t @ [EvLog ''ignoring SCTP packet from unknown IP:port'' []]\<rparr>)) \<and>
   (tuple t = Some own \<and>
    (sa_addr src \<noteq> sa_addr (udpRemoteAddr own) \<or> sa_port src \<noteq> sa_port (udpRemoteAddr own)) \<and>
    (IsRtcp env d \<or> IsRtp env d \<or> IsSctp env d) \<longrightarrow>
      (\<exists>m. OnUdpSocketPacketReceived env t sock d src =
             Some (t\<lparr>calls := calls t @ [EvDataReceived (length d), EvLog m []]\<rparr>) \<and>
           bytesReceived (t\<lparr>calls := calls t @ [EvDataReceived (length d), EvLog m []]\<rparr>) =
             bytesReceived t + length d \<and>
           bytesSent (t\<lparr>calls := calls t @ [EvDataReceived (length d), EvLog m []]\<rparr>) =
             bytesSent t)) \<and>
   (tuple t = None \<longrightarrow>
      OnRtpDataReceived env t tup d = Some t \<and>
      OnRtcpDataReceived env t tup d = Some t \<and>
      OnSctpDataReceived env t tup d = Some t) \<and>
   (tuple t = None \<and> (IsRtcp env d \<or> IsRtp env d \<or> IsSctp env d) \<longrightarrow>
      OnUdpSocketPacketReceived env t sock d src =
        Some (t\<lparr>calls := calls t @ [EvDataReceived (length d)]\<rparr>))"
  (is "?handlers \<and> ?entry \<and> ?unconnected \<and> ?unconnected_entry")
proof (intro conjI)
  show ?handlers
    by (auto simp: OnRtpDataReceived_def OnRtcpDataReceived_def OnSctpDataReceived_def
        TransportTuple_Compare_def record_call_def)
  show ?unconnected
    by (simp add: OnRtpDataReceived_def OnRtcpDataReceived_def OnSctpDataReceived_def)
  show ?unconnected_entry
    by (auto simp: OnUdpSocketPacketReceived_def OnPacketReceived_def OnRtpDataReceived_def
        OnRtcpDataReceived_def OnSctpDataReceived_def record_call_def Let_def)
  show ?entry
  proof
    assume a: "tuple t = Some own \<and>
      (sa_addr src \<noteq> sa_addr (udpRemoteAddr own) \<or> sa_port src \<noteq> sa_port (udpRemoteAddr own)) \<and>
      (IsRtcp env d \<or> IsRtp env d \<or> IsSctp env d)"
    let ?tup = "TransportTuple_new sock src"
    let ?t1 = "record_call (EvDataReceived (length d)) t"
    have own: "tuple ?t1 = Some own" using a by (simp add: record_call_def)
    have differs: "\<not> TransportTuple_Compare own ?tup"
      using a by (intro Compare_mismatch) (simp add: TransportTuple_new_def)
    have counters: "bytesReceived (t\<lparr>calls := calls t @ [EvDataReceived (length d), EvLog m []]\<rparr>) =
             bytesReceived t + length d \<and>
           bytesSent (t\<lparr>calls := calls t @ [EvDataReceived (length d), EvLog m []]\<rparr>) =
             bytesSent t" for m
      by (simp add: bytesReceived_def bytesSent_def)
    have "\<exists>m. OnUdpSocketPacketReceived env t sock d src =
             Some (t\<lparr>calls := calls t @ [EvDataReceived (length d), EvLog m []]\<rparr>)"
      using a own differs
      by (auto simp: OnUdpSocketPacketReceived_def OnPacketReceived_def OnRtpDataReceived_def
          OnRtcpDataReceived_def OnSctpDataReceived_def record_call_def Let_def)
    with counters show "\<exists>m. OnUdpSocketPacketReceived env t sock d src =
             Some (t\<lparr>calls := calls t @ [EvDataReceived (length d), EvLog m []]\<rparr>) \<and>
           bytesReceived (t\<lparr>calls := calls t @ [EvDataReceived (length d), EvLog m []]\<rparr>) =
             bytesReceived t + length d \<and>
           bytesSent (t\<lparr>calls := calls t @ [EvDataReceived (length d), EvLog m []]\<rparr>) =
             bytesSent t"
      by blast
  qed
qed

theorem spoofed_or_unconnected_dropped_witness:
  "tuple connected_srtp = Some (loopback_tuple 0) \<and>
   sa_port (loopback_addr 5004) \<noteq> sa_port (udpRemoteAddr (loopback_tuple 0)) \<and>
   IsRtp loopback_env [128, 0, 255] \<and>
   OnUdpSocketPacketReceived loopback_env connected_srtp (socket connected_srtp) [128, 0, 255]
       (loopback_addr 5004) =
     Some (connected_srtp\<lparr>calls :=
       [EvConnected, EvDataReceived 3, EvLog ''ignoring RTP packet from unknown IP:port'' []]\<rparr>) \<and>
   tuple srtp_transport = None \<and>
   OnUdpSocketPacketReceived loopback_env srtp_transport (socket srtp_transport) [128, 0, 255]
       (loopback_addr 0) =
     Some (srtp_transport\<lparr>calls := [EvDataReceived 3]\<rparr>)"
proof -
  note eval = handler_defs sample_defs TransportTuple_Compare_def TransportTuple_new_def HasSrtp_def
  have pre: "tuple connected_srtp = Some (loopback_tuple 0)"
      "sa_port (loopback_addr 5004) \<noteq> sa_port (udpRemoteAddr (loopback_tuple 0))"
      "IsRtp loopback_env [128, 0, 255]" "tuple srtp_transport = None"
    by (simp_all add: eval)
  have spoofed: "OnUdpSocketPacketReceived loopback_env connected_srtp (socket connected_srtp)
       [128, 0, 255] (loopback_addr 5004) =
     Some (connected_srtp\<lparr>calls :=
       [EvConnected, EvDataReceived 3, EvLog ''ignoring RTP packet from unknown IP:port'' []]\<rparr>)"
    by (simp add: eval)
  from spoofed_or_unconnected_dropped [where t = connected_srtp and own = "loopback_tuple 0"
         and src = "loopback_addr 5004" and env = loopback_env and d = "[128, 0, 255]"
         and sock = "socket connected_srtp"]
       spoofed_or_unconnected_dropped [where t = srtp_transport and env = loopback_env
         and d = "[128, 0, 255]" and sock = "socket srtp_transport" and src = "loopback_addr 0"]
       pre spoofed
  show ?thesis by (simp add: sample_defs)
qed

section \<open>The outbound pipeline\<close>

text \<open>
  C7: the policy of the send operations (\<^verbatim>\<open>SendRtcpPacket\<close> and
  \<^verbatim>\<open>SendRtcpCompoundPacket\<close> run \<open>send_rtcp_buffer\<close> on the buffer of
  their packet).
  \<^item> Unconnected: \<^verbatim>\<open>SendRtpPacket\<close> with a callback invokes it with
    \<^verbatim>\<open>false\<close> and does nothing else, without a callback it does nothing; the
    RTCP and SCTP sends do nothing. Nothing is handed to the tuple and the
    bytes-sent counter does not change.
  \<^item> Connected with protection, encryption fails: nothing is handed to the tuple,
    the bytes-sent counter does not change, and the callback of
    \<^verbatim>\<open>SendRtpPacket\<close>, when there is one, is invoked with \<^verbatim>\<open>false\<close>.
  \<^item> Otherwise the buffer (the encrypted one under protection) is handed to the
    tuple, with the callback for RTP, and the next call is \<^verbatim>\<open>DataSent\<close> with
    the length of the buffer that was handed over: the bytes-sent counter grows
    by the transmitted length.
\<close>

theorem send_policy:
  "(\<not> IsConnected t \<longrightarrow>
      SendRtpPacket env t packet (Some cb) =
        Some (t\<lparr>calls := calls t @ [EvCallback cb False]\<rparr>) \<and>
      bytesSent (t\<lparr>calls := calls t @ [EvCallback cb False]\<rparr>) = bytesSent t \<and>
      SendRtpPacket env t packet None = Some t \<and>
      SendRtcpPacket env t rtcp = Some t \<and>
      SendRtcpCompoundPacket env t compound = Some t \<and>
      SendSctpData env t d = Some t) \<and>
   (IsConnected t \<and> HasSrtp t \<and> srtpSendSession t = Some ses \<and>
    EncryptRtp env ses (rtpData packet) = (None, ses') \<longrightarrow>
      (\<exists>t'. SendRtpPacket env t packet cbo = Some t' \<and>
            calls t' = calls t @ EvEncryptRtp (rtpData packet) #
              (case cbo of None \<Rightarrow> [] | Some c \<Rightarrow> [EvCallback c False]) \<and>
            bytesSent t' = bytesSent t)) \<and>
   (IsConnected t \<and> HasSrtp t \<and> srtpSendSession t = Some ses \<and>
    EncryptRtcp env ses d = (None, ses') \<longrightarrow>
      (\<exists>t'. send_rtcp_buffer env t d = Some t' \<and>
            calls t' = calls t @ [EvEncryptRtcp d] \<and>
            bytesSent t' = bytesSent t)) \<and>
   (IsConnected t \<and> HasSrtp t \<and> srtpSendSession t = Some ses \<and>
    EncryptRtp env ses (rtpData packet) = (Some out, ses') \<longrightarrow>
      (\<exists>t'. SendRtpPacket env t packet cbo = Some t' \<and>
            calls t' = calls t @
              [EvEncryptRtp (rtpData packet), EvTupleSend out cbo, EvDataSent (length out)] \<and>
            bytesSent t' = bytesSent t + length out)) \<and>
   (IsConnected t \<and> HasSrtp t \<and> srtpSendSession t = Some ses \<and>
    EncryptRtcp env ses d = (Some out, ses') \<longrightarrow>
      (\<exists>t'. send_rtcp_buffer env t d = Some t' \<and>
            calls t' = calls t @
              [EvEncryptRtcp d, EvTupleSend out None, EvDataSent (length out)] \<and>
            bytesSent t' = bytesSent t + length out)) \<and>
   (IsConnected t \<and> \<not> HasSrtp t \<longrightarrow>
      (\<exists>t'. SendRtpPacket env t packet cbo = Some t' \<and>
            calls t' = calls t @
              [EvTupleSend (rtpData packet) cbo, EvDataSent (length (rtpData packet))] \<and>
            bytesSent t' = bytesSent t + length (rtpData packet)) \<and>
      (\<exists>t'. send_rtcp_buffer env t d = Some t' \<and>
            calls t' = calls t @ [EvTupleSend d None, EvDataSent (length d)] \<and>
            bytesSent t' = bytesSent t + length d)) \<and>
   (IsConnected t \<longrightarrow>
      (\<exists>t'. SendSctpData env t d = Some t' \<and>
            calls t' = calls t @ [EvTupleSend d None, EvDataSent (length d)] \<and>
            bytesSent t' = bytesSent t + length d)) \<and>
   SendRtcpPacket env t rtcp = send_rtcp_buffer env t (rtcpData rtcp) \<and>
   SendRtcpCompoundPacket env t compound = send_rtcp_buffer env t (compoundData compound)"
  (is "?unconnected \<and> ?rtp_fails \<and> ?rtcp_fails \<and> ?rtp_srtp \<and> ?rtcp_srtp \<and> ?plain \<and>
       ?sctp \<and> ?rtcp_single \<and> ?rtcp_compound")
proof (intro conjI)
  note defs = SendRtpPacket_def send_rtcp_buffer_def SendSctpData_def fail_callback_def
    send_and_count_def record_call_def bytesSent_def Let_def
  show ?unconnected
    by (simp add: defs SendRtcpPacket_def SendRtcpCompoundPacket_def)
  show ?rtp_fails
    by (cases cbo) (simp_all add: defs)
  show ?rtcp_fails
    by (simp add: defs)
  show ?rtp_srtp
    by (simp add: defs)
  show ?rtcp_srtp
    by (simp add: defs)
  show ?plain
    by (simp add: defs)
  show ?sctp
    by (simp add: defs)
  show ?rtcp_single
    by (simp add: SendRtcpPacket_def)
  show ?rtcp_compound
    by (simp add: SendRtcpCompoundPacket_def)
qed

theorem send_policy_witness:
  "\<not> IsConnected srtp_transport \<and>
   SendRtpPacket loopback_env srtp_transport (rtp_packet [128, 1]) (Some 1) =
     Some (srtp_transport\<lparr>calls := [EvCallback 1 False]\<rparr>) \<and>
   SendSctpData loopback_env srtp_transport [19, 1] = Some srtp_transport \<and>
   IsConnected connected_srtp \<and> HasSrtp connected_srtp \<and>
   srtpSendSession connected_srtp = Some 0 \<and>
   EncryptRtp loopback_env 0 [] = (None, 1) \<and>
   SendRtpPacket loopback_env connected_srtp (rtp_packet []) (Some 1) =
     Some (connected_srtp\<lparr>srtpSendSession := Some 1,
             calls := [EvConnected, EvEncryptRtp [], EvCallback 1 False]\<rparr>) \<and>
   EncryptRtp loopback_env 0 [128, 1] = (Some [128, 1, 255], 1) \<and>
   SendRtpPacket loopback_env connected_srtp (rtp_packet [128, 1]) (Some 1) =
     Some (connected_srtp\<lparr>srtpSendSession := Some 1,
             calls := [EvConnected, EvEncryptRtp [128, 1], EvTupleSend [128, 1, 255] (Some 1),
                       EvDataSent 3]\<rparr>) \<and>
   bytesSent connected_srtp = 0 \<and>
   bytesSent (connected_srtp\<lparr>srtpSendSession := Some 1,
             calls := [EvConnected, EvEncryptRtp [128, 1], EvTupleSend [128, 1, 255] (Some 1),
                       EvDataSent 3]\<rparr>) = 3 \<and>
   IsConnected connected_plain \<and> \<not> HasSrtp connected_plain \<and>
   SendRtcpPacket loopback_env connected_plain \<lparr> rtcpData = [129, 0] \<rparr> =
     Some (connected_plain\<lparr>calls := [EvConnected, EvTupleSend [129, 0] None, EvDataSent 2]\<rparr>)"
proof -
  note eval = handler_defs sample_defs HasSrtp_def rtp_packet_def bytesSent_def
  have pre: "\<not> IsConnected srtp_transport" "IsConnected connected_srtp" "HasSrtp connected_srtp"
      "srtpSendSession connected_srtp = Some 0" "EncryptRtp loopback_env 0 [] = (None, 1)"
      "EncryptRtp loopback_env 0 [128, 1] = (Some [128, 1, 255], 1)"
      "IsConnected connected_plain" "\<not> HasSrtp connected_plain"
    by (simp_all add: eval)
  have runs: "SendRtpPacket loopback_env connected_srtp (rtp_packet []) (Some 1) =
     Some (connected_srtp\<lparr>srtpSendSession := Some 1,
             calls := [EvConnected, EvEncryptRtp [], EvCallback 1 False]\<rparr>)"
    "SendRtpPacket loopback_env connected_srtp (rtp_packet [128, 1]) (Some 1) =
     Some (connected_srtp\<lparr>srtpSendSession := Some 1,
             calls := [EvConnected, EvEncryptRtp [128, 1], EvTupleSend [128, 1, 255] (Some 1),
                       EvDataSent 3]\<rparr>)"
    "SendRtcpPacket loopback_env connected_plain \<lparr> rtcpData = [129, 0] \<rparr> =
     Some (connected_plain\<lparr>calls := [EvConnected, EvTupleSend [129, 0] None, EvDataSent 2]\<rparr>)"
    by (simp_all add: eval)
  from send_policy [where t = srtp_transport and env = loopback_env
         and packet = "rtp_packet [128, 1]" and cb = 1 and d = "[19, 1]"]
       send_policy [where t = connected_srtp and env = loopback_env
         and packet = "rtp_packet []" and ses = 0 and ses' = 1 and cbo = "Some 1"]
       send_policy [where t = connected_srtp and env = loopback_env
         and packet = "rtp_packet [128, 1]" and ses = 0 and ses' = 1 and cbo = "Some 1"
         and out = "[128, 1, 255]"]
       send_policy [where t = connected_plain and env = loopback_env
         and rtcp = "\<lparr> rtcpData = [129, 0] \<rparr>" and d = "[129, 0]"]
       pre runs
  show ?thesis by (simp add: eval)
qed

section \<open>SCTP data\<close>

text \<open>
  C8: SCTP data is never encrypted or decrypted, with or without protection. On a
  connected transport \<^verbatim>\<open>SendSctpData\<close> hands the buffer it was given to the
  tuple and counts its length; no call is made on the sending session, whose
  state is unchanged. An inbound SCTP datagram from the remote address of the
  binding is forwarded as the buffer that was received; no call is made on the
  receiving session.
\<close>

theorem sctp_never_transformed:
  "(IsConnected t \<longrightarrow>
      SendSctpData env t d =
        Some (t\<lparr>calls := calls t @ [EvTupleSend d None, EvDataSent (length d)]\<rparr>)) \<and>
   (tuple t = Some own \<and> TransportTuple_Compare own tup \<longrightarrow>
      OnSctpDataReceived env t tup d =
        Some (t\<lparr>calls := calls t @ [EvReceiveSctpData d]\<rparr>)) \<and>
   (tuple t = Some own \<and>
    sa_addr src = sa_addr (udpRemoteAddr own) \<and> sa_port src = sa_port (udpRemoteAddr own) \<and>
    \<not> IsRtcp env d \<and> \<not> IsRtp env d \<and> IsSctp env d \<longrightarrow>
      OnUdpSocketPacketReceived env t sock d src =
        Some (t\<lparr>calls := calls t @ [EvDataReceived (length d), EvReceiveSctpData d]\<rparr>))"
  (is "?send \<and> ?handler \<and> ?entry")
proof (intro conjI)
  show ?send
    by (simp add: SendSctpData_def send_and_count_def record_call_def)
  show ?handler
    by (simp add: OnSctpDataReceived_def record_call_def)
  show ?entry
    by (simp add: OnUdpSocketPacketReceived_def OnPacketReceived_def OnSctpDataReceived_def
        TransportTuple_Compare_def TransportTuple_new_def record_call_def Let_def)
qed

theorem sctp_never_transformed_witness:
  "IsConnected connected_srtp \<and> HasSrtp connected_srtp \<and>
   SendSctpData loopback_env connected_srtp [19, 1] =
     Some (connected_srtp\<lparr>calls := [EvConnected, EvTupleSend [19, 1] None, EvDataSent 2]\<rparr>) \<and>
   tuple connected_srtp = Some (loopback_tuple 0) \<and>
   TransportTuple_Compare (loopback_tuple 0) (loopback_tuple 0) \<and>
   OnSctpDataReceived loopback_env connected_srtp (loopback_tuple 0) [19, 1] =
     Some (connected_srtp\<lparr>calls := [EvConnected, EvReceiveSctpData [19, 1]]\<rparr>) \<and>
   \<not> IsRtcp loopback_env [19, 1] \<and> \<not> IsRtp loopback_env [19, 1] \<and> IsSctp loopback_env [19, 1] \<and>
   OnUdpSocketPacketReceived loopback_env connected_srtp (socket connected_srtp) [19, 1]
       (loopback_addr 0) =
     Some (connected_srtp\<lparr>calls :=
       [EvConnected, EvDataReceived 2, EvReceiveSctpData [19, 1]]\<rparr>)"
proof -
  note eval = handler_defs sample_defs HasSrtp_def TransportTuple_Compare_def
  have pre: "IsConnected connected_srtp" "HasSrtp connected_srtp"
      "tuple connected_srtp = Some (loopback_tuple 0)"
      "TransportTuple_Compare (loopback_tuple 0) (loopback_tuple 0)"
      "\<not> IsRtcp loopback_env [19, 1]" "\<not> IsRtp loopback_env [19, 1]" "IsSctp loopback_env [19, 1]"
      "sa_addr (loopback_addr 0) = sa_addr (udpRemoteAddr (loopback_tuple 0))"
      "sa_port (loopback_addr 0) = sa_port (udpRemoteAddr (loopback_tuple 0))"
    by (simp_all add: eval)
  from sctp_never_transformed [where t = connected_srtp and env = loopback_env
         and d = "[19, 1]" and own = "loopback_tuple 0" and tup = "loopback_tuple 0"
         and src = "loopback_addr 0" and sock = "socket connected_srtp"]
       pre
  show ?thesis by (simp add: sample_defs)
qed

section \<open>The constructor: options that are not booleans\<close>

lemma map_of_without:
  "map_of (filter (\<lambda>kv. fst kv \<noteq> k) kvs) k' = (if k' = k then None else map_of kvs k')"
  by (induction kvs) auto

lemma find_json_without:
  "find_json (without_key k j) k' = (if k' = k then None else find_json j k')"
  by (cases j) (simp_all add: map_of_without)

lemma is_boolean_iff: "is_boolean v \<longleftrightarrow> (\<exists>b. v = JBool b)"
  by (cases v) auto

lemma ctor_srtpKey_ignored:
  "find_json d ''enableSrtp'' = Some v \<Longrightarrow> \<not> is_boolean v \<Longrightarrow> ctor_srtpKey env d = []"
  by (simp add: ctor_srtpKey_def)

lemma ctor_rtx_ignored:
  "find_json d ''enableRtx'' = Some v \<Longrightarrow> \<not> is_boolean v \<Longrightarrow> ctor_rtx d = False"
  by (simp add: ctor_rtx_def)

lemma PipeTransport_new_without:
  assumes "k = ''enableSrtp'' \<or> k = ''enableRtx''"
    and "find_json d k = Some v" and "\<not> is_boolean v"
    and "Transport_new env (without_key k d) = Transport_new env d"
  shows "PipeTransport_new env (without_key k d) = PipeTransport_new env d"
proof -
  have other: "find_json (without_key k d) ''listenIp'' = find_json d ''listenIp''"
    using assms(1) by (auto simp: find_json_without)
  have rtx: "ctor_rtx (without_key k d) = ctor_rtx d"
    using assms(1,2,3) by (auto simp: ctor_rtx_def find_json_without)
  have key: "ctor_srtpKey env (without_key k d) = ctor_srtpKey env d"
    using assms(1,2,3) by (auto simp: ctor_srtpKey_def find_json_without)
  show ?thesis
    unfolding PipeTransport_new_def other rtx key assms(4) by (rule refl)
qed

text \<open>
  C10: an \<^verbatim>\<open>enableSrtp\<close> that is present and not a boolean generates no
  local key: every transport the constructor returns has an empty
  \<^verbatim>\<open>srtpKey\<close>, so protection is disabled. An \<^verbatim>\<open>enableRtx\<close> that is
  present and not a boolean leaves \<^verbatim>\<open>rtx\<close> false. In both cases the
  constructor ends exactly as it does on the configuration without that option,
  given that the base class's constructor does: the option raises no error.
\<close>

theorem ctor_ignores_non_boolean:
  "(find_json d ''enableSrtp'' = Some v \<and> \<not> is_boolean v \<longrightarrow>
      ctor_srtpKey env d = [] \<and>
      (\<forall>t. PipeTransport_new env d = Inr t \<longrightarrow> srtpKey t = [] \<and> \<not> HasSrtp t) \<and>
      (Transport_new env (without_key ''enableSrtp'' d) = Transport_new env d \<longrightarrow>
         PipeTransport_new env d = PipeTransport_new env (without_key ''enableSrtp'' d))) \<and>
   (find_json d ''enableRtx'' = Some v \<and> \<not> is_boolean v \<longrightarrow>
      ctor_rtx d = False \<and>
      (\<forall>t. PipeTransport_new env d = Inr t \<longrightarrow> \<not> rtx t) \<and>
      (Transport_new env (without_key ''enableRtx'' d) = Transport_new env d \<longrightarrow>
         PipeTransport_new env d = PipeTransport_new env (without_key ''enableRtx'' d)))"
  (is "?srtp \<and> ?rtx")
proof (intro conjI)
  show ?srtp
    using ctor_srtpKey_ignored [of d v env] PipeTransport_new_state [of env d]
      PipeTransport_new_without [of "''enableSrtp''" d v env]
    by (auto simp: HasSrtp_def)
  show ?rtx
    using ctor_rtx_ignored [of d v] PipeTransport_new_state [of env d]
      PipeTransport_new_without [of "''enableRtx''" d v env]
    by auto
qed

theorem ctor_ignores_non_boolean_witness:
  "find_json odd_config ''enableSrtp'' = Some (JString ''true'') \<and>
   \<not> is_boolean (JString ''true'') \<and>
   find_json odd_config ''enableRtx'' = Some (JUInt 1) \<and> \<not> is_boolean (JUInt 1) \<and>
   PipeTransport_new loopback_env odd_config = Inr plain_transport \<and>
   srtpKey plain_transport = [] \<and> \<not> HasSrtp plain_transport \<and> \<not> rtx plain_transport \<and>
   PipeTransport_new loopback_env (without_key ''enableSrtp'' odd_config) = Inr plain_transport \<and>
   PipeTransport_new loopback_env srtp_config = Inr srtp_transport \<and> HasSrtp srtp_transport"
proof -
  note eval = PipeTransport_new_def ctor_announcedIp_def ctor_rtx_def ctor_srtpKey_def
    odd_config_def srtp_config_def sample_defs SrtpMasterLength_def HasSrtp_def
  have pre: "find_json odd_config ''enableSrtp'' = Some (JString ''true'')"
      "\<not> is_boolean (JString ''true'')"
      "find_json odd_config ''enableRtx'' = Some (JUInt 1)" "\<not> is_boolean (JUInt 1)"
      "Transport_new loopback_env (without_key ''enableSrtp'' odd_config) =
         Transport_new loopback_env odd_config"
    by (simp_all add: eval)
  have new: "PipeTransport_new loopback_env odd_config = Inr plain_transport"
    "PipeTransport_new loopback_env srtp_config = Inr srtp_transport"
    "HasSrtp srtp_transport"
    by (simp_all add: eval)
  from ctor_ignores_non_boolean [where d = odd_config and v = "JString ''true''"
         and env = loopback_env]
       ctor_ignores_non_boolean [where d = odd_config and v = "JUInt 1"
         and env = loopback_env]
       pre new
  show ?thesis by simp
qed

section \<open>Connect: aborts\<close>

text \<open>
  The only aborts of a connect call are the two \<^verbatim>\<open>MS_ABORT\<close> of the address
  resolution: the cases of the model that stand for a \<^verbatim>\<open>get<std::string>()\<close>
  on a value that is not a string and for a null \<^verbatim>\<open>this->tuple\<close> after the
  \<^verbatim>\<open>try\<close> block are never reached.
\<close>

lemma connect_srtp_never_aborts: "connect_srtp env t d \<noteq> Abort m"
  by (auto simp: connect_srtp_def absent_or_not_def Let_def get_string_None
      split: option.splits sum.splits if_splits)

lemma connect_resolve_Abort:
  "connect_resolve env t a p = Abort m \<Longrightarrow>
     (\<exists>err. err \<noteq> 0 \<and> m = ''uv_ip4_addr() failed: '' @ uv_strerror env err) \<or>
     (\<exists>err. err \<noteq> 0 \<and> m = ''uv_ip6_addr() failed: '' @ uv_strerror env err)"
  by (auto simp: connect_resolve_def uv_ip4_addr_def uv_ip6_addr_def Let_def
      split: family.splits sum.splits if_splits)

lemma connect_Abort:
  assumes "connect env t d = Abort m"
  shows "(\<exists>err. err \<noteq> 0 \<and> m = ''uv_ip4_addr() failed: '' @ uv_strerror env err) \<or>
         (\<exists>err. err \<noteq> 0 \<and> m = ''uv_ip6_addr() failed: '' @ uv_strerror env err)"
proof -
  from assms have unconnected: "tuple t = None"
    by (auto simp: connect_def split: if_splits)
  from assms consider (aborted) "connect_try env t d = Abort m"
    | (absent) u t1 where "connect_try env t d = Return u t1" "tuple t1 = None"
    by (auto simp: connect_def split: if_splits result.splits option.splits)
  then show ?thesis
  proof cases
    case aborted
    then obtain u t1 a p where "connect_resolve env t1 a p = Abort m"
      using connect_srtp_never_aborts [of env t d m]
      by (auto simp: connect_try_def split: sum.splits result.splits)
    then show ?thesis by (rule connect_resolve_Abort)
  next
    case absent
    with connect_try_Return_state [OF absent(1)] show ?thesis by simp
  qed
qed

section \<open>No null session is dereferenced\<close>

lemma send_handlers_return:
  assumes "sessions_consistent t"
  shows "\<exists>t'. SendRtpPacket env t packet cb = Some t'"
    and "\<exists>t'. send_rtcp_buffer env t d = Some t'"
    and "\<exists>t'. SendSctpData env t d = Some t'"
  using assms
  by (auto simp: SendRtpPacket_def send_rtcp_buffer_def SendSctpData_def IsConnected_def
        sessions_consistent_def Let_def
      split: option.splits prod.splits if_splits)

text \<open>
  On a transport whose sessions are consistent no call dereferences a null
  session: every call but a connect that aborts runs to its end.
\<close>

lemma step_returns:
  assumes "sessions_consistent t"
  shows "(\<exists>t'. step env t ev = Some t') \<or>
         (\<exists>d m. ev = Connect d \<and> connect env t d = Abort m)"
proof (cases ev)
  case (Connect d)
  then show ?thesis
    by (cases "connect env t d") (simp_all add: step_def HandleRequest_def)
next
  case (SendRtp packet cb)
  with send_handlers_return(1) [OF assms] show ?thesis by (simp add: step_def)
next
  case (SendRtcp packet)
  with send_handlers_return(2) [OF assms] show ?thesis
    by (simp add: step_def SendRtcpPacket_def)
next
  case (SendRtcpCompound packet)
  with send_handlers_return(2) [OF assms] show ?thesis
    by (simp add: step_def SendRtcpCompoundPacket_def)
next
  case (SendSctp d)
  with send_handlers_return(3) [OF assms] show ?thesis by (simp add: step_def)
next
  case (Datagram sock d remoteAddr)
  with OnPacketReceived_returns [OF assms] show ?thesis
    by (simp add: step_def OnUdpSocketPacketReceived_def)
qed

end
